theory Spec2Isabelle
  imports
    Main
    "HOL-Library.AList"
    "HOL-Library.Char_ord"
    "HOL-Library.List_Lexorder"
    "HOL-Library.Log_Nat"
begin

section \<open>Python values used by populate_stats.py\<close>

text \<open>
  Strings are modelled as ASCII \<^typ>\<open>string\<close>s. A Python dict is an association list:
  \<^const>\<open>map_of\<close> is the lookup and \<^const>\<open>AList.update\<close> the store (an existing key keeps
  its position, a new key goes to the end, as in a dict). A failing subscript
  \<^verbatim>\<open>d[k]\<close> is the value \<open>Inl (KeyError k)\<close>.
\<close>

datatype py_error = KeyError string

type_synonym ('k, 'v) dict = "('k \<times> 'v) list"

definition dict_get :: "('k, 'v) dict \<Rightarrow> 'k \<Rightarrow> 'v \<Rightarrow> 'v" where
  \<comment> \<open>\<^verbatim>\<open>d.get(k, default)\<close>\<close>
  "dict_get d k dflt = (case map_of d k of Some v \<Rightarrow> v | None \<Rightarrow> dflt)"

definition dict_in :: "'k \<Rightarrow> ('k, 'v) dict \<Rightarrow> bool" where
  \<comment> \<open>\<^verbatim>\<open>k in d\<close>\<close>
  "dict_in k d = (map_of d k \<noteq> None)"

definition digit_char :: "nat \<Rightarrow> char" where
  "digit_char d = ''0123456789'' ! d"

function digits10 :: "nat \<Rightarrow> string" where
  "digits10 n = (if n < 10 then [digit_char n] else digits10 (n div 10) @ [digit_char (n mod 10)])"
  by pat_completeness auto
termination
  by (relation "measure id") auto

declare digits10.simps [simp del]

definition str_int :: "int \<Rightarrow> string" where
  \<comment> \<open>\<^verbatim>\<open>str(i)\<close> for an integer\<close>
  "str_int i = (if i < 0 then CHR ''-'' # digits10 (nat (- i)) else digits10 (nat i))"

definition ascii_case_pairs :: "(char \<times> char) list" where
  "ascii_case_pairs = zip ''ABCDEFGHIJKLMNOPQRSTUVWXYZ'' ''abcdefghijklmnopqrstuvwxyz''"

definition lower_char :: "char \<Rightarrow> char" where
  \<comment> \<open>the 26 ASCII capitals map to their small letters, every other character to itself\<close>
  "lower_char c = dict_get ascii_case_pairs c c"

definition lower :: "string \<Rightarrow> string" where
  \<comment> \<open>\<^verbatim>\<open>s.lower()\<close> on ASCII text\<close>
  "lower s = map lower_char s"

definition is_space :: "char \<Rightarrow> bool" where
  "is_space c = (c \<in> set [CHR 0x09, CHR 0x0A, CHR 0x0B, CHR 0x0C, CHR 0x0D,
                            CHR 0x1C, CHR 0x1D, CHR 0x1E, CHR 0x1F, CHR 0x20])"

definition strip :: "string \<Rightarrow> string" where
  \<comment> \<open>\<^verbatim>\<open>s.strip()\<close>\<close>
  "strip s = rev (dropWhile is_space (rev (dropWhile is_space s)))"

subsection \<open>Floats\<close>

text \<open>
  A finite Python float is a rational. \<open>py_float q\<close> is the binary64 number nearest to
  \<open>q\<close> (53 significant bits, ties to even) in the normal range, which is what the
  interpreter's product of two floats returns for the exact product \<open>q\<close>. \<open>py_int\<close> is
  \<^verbatim>\<open>int(x)\<close> on a float: truncation towards zero.
\<close>

definition pow2 :: "int \<Rightarrow> rat" where
  "pow2 e = (if 0 \<le> e then 2 ^ nat e else 1 / 2 ^ nat (- e))"

definition round_half_even :: "rat \<Rightarrow> int" where
  "round_half_even q =
     (let f = \<lfloor>q\<rfloor>; r = q - of_int f
      in if r < 1 / 2 then f else if 1 / 2 < r then f + 1 else if even f then f else f + 1)"

definition float_exponent :: "rat \<Rightarrow> int" where
  \<comment> \<open>for \<open>0 < a\<close>: the \<open>e\<close> with \<open>2 ^ e \<le> a < 2 ^ (e + 1)\<close>\<close>
  "float_exponent a =
     (let (n, d) = quotient_of a; e0 = bitlen n - bitlen d
      in if pow2 e0 \<le> a then e0 else e0 - 1)"

definition py_float :: "rat \<Rightarrow> rat" where
  "py_float q =
     (if q = 0 then 0
      else let a = \<bar>q\<bar>; e = float_exponent a; m = round_half_even (a / pow2 (e - 52))
           in sgn q * of_int m * pow2 (e - 52))"

definition py_float_mul :: "int \<Rightarrow> rat \<Rightarrow> rat" where
  \<comment> \<open>\<^verbatim>\<open>i * f\<close> for an int \<open>i\<close> and a float \<open>f\<close>: the int becomes a float first\<close>
  "py_float_mul i f = py_float (py_float (of_int i) * f)"

definition py_int :: "rat \<Rightarrow> int" where
  "py_int x = (if 0 \<le> x then \<lfloor>x\<rfloor> else \<lceil>x\<rceil>)"

section \<open>Rank table\<close>

type_synonym rank_thresholds = "(string, int \<times> int) dict"

text \<open>
  \<^verbatim>\<open>
  def calculate_rank(xp, rank_thresholds):
      for rank in range(50, 0, -1):
          rank_str = str(rank)
          if rank_str in rank_thresholds:
              min_xp, max_xp = rank_thresholds[rank_str]
              if min_xp <= xp <= max_xp:
                  return rank
      return 1
  \<close>
\<close>

fun calculate_rank_from :: "nat \<Rightarrow> int \<Rightarrow> rank_thresholds \<Rightarrow> int" where
  "calculate_rank_from 0 xp rt = 1"
| "calculate_rank_from (Suc n) xp rt =
     (case map_of rt (str_int (int (Suc n))) of
        Some (min_xp, max_xp) \<Rightarrow>
          if min_xp \<le> xp \<and> xp \<le> max_xp then int (Suc n) else calculate_rank_from n xp rt
      | None \<Rightarrow> calculate_rank_from n xp rt)"

definition calculate_rank :: "int \<Rightarrow> rank_thresholds \<Rightarrow> int" where
  "calculate_rank xp rt = calculate_rank_from 50 xp rt"

text \<open>
  The bot's copy in STATSRANKS_new.py reads the table with integer keys
  (\<^verbatim>\<open>get_rank_thresholds\<close>) and tests the lower bound only:
  \<^verbatim>\<open>
  def calculate_rank(xp):
      thresholds = get_rank_thresholds()
      for level in range(50, 0, -1):
          min_xp, max_xp = thresholds[level]
          if xp >= min_xp:
              return level
      return 1
  \<close>
\<close>

fun statsranks_calculate_rank_from ::
  "nat \<Rightarrow> int \<Rightarrow> (int, int \<times> int) dict \<Rightarrow> py_error + int" where
  "statsranks_calculate_rank_from 0 xp th = Inr 1"
| "statsranks_calculate_rank_from (Suc n) xp th =
     (case map_of th (int (Suc n)) of
        None \<Rightarrow> Inl (KeyError (str_int (int (Suc n))))
      | Some (min_xp, max_xp) \<Rightarrow>
          if min_xp \<le> xp then Inr (int (Suc n)) else statsranks_calculate_rank_from n xp th)"

definition statsranks_calculate_rank :: "int \<Rightarrow> (int, int \<times> int) dict \<Rightarrow> py_error + int" where
  "statsranks_calculate_rank xp th = statsranks_calculate_rank_from 50 xp th"

definition default_levels :: "(int, int \<times> int) dict" where
  \<comment> \<open>the default \<^verbatim>\<open>rank_thresholds\<close> of \<^verbatim>\<open>get_xp_config\<close>\<close>
  "default_levels =
    [(1, 0, 88), (2, 89, 188), (3, 189, 288), (4, 289, 388), (5, 389, 488),
     (6, 489, 588), (7, 589, 688), (8, 689, 788), (9, 789, 888), (10, 889, 988),
     (11, 989, 1088), (12, 1089, 1188), (13, 1189, 1388), (14, 1389, 1588),
     (15, 1589, 1788), (16, 1789, 1988), (17, 1989, 2238), (18, 2239, 2488),
     (19, 2489, 2738), (20, 2739, 2988), (21, 2989, 3238), (22, 3239, 3488),
     (23, 3489, 3738), (24, 3739, 3988), (25, 3989, 4238), (26, 4239, 4488),
     (27, 4489, 4738), (28, 4739, 4988), (29, 4989, 5238), (30, 5239, 5488),
     (31, 5489, 5738), (32, 5739, 5988), (33, 5989, 6238), (34, 6239, 6488),
     (35, 6489, 6738), (36, 6739, 6988), (37, 6989, 7238), (38, 7239, 7488),
     (39, 7489, 7738), (40, 7739, 7988), (41, 7989, 8238), (42, 8239, 8488),
     (43, 8489, 8738), (44, 8739, 8988), (45, 8989, 9238), (46, 9239, 9488),
     (47, 9489, 9738), (48, 9739, 9988), (49, 9989, 10238), (50, 10239, 1000000000)]"

definition default_rank_thresholds :: rank_thresholds where
  "default_rank_thresholds = map (\<lambda>(k, b). (str_int k, b)) default_levels"

section \<open>Factor table\<close>

type_synonym factors = "(string, rat) dict"

text \<open>
  \<^verbatim>\<open>
  def get_loss_factor(rank, loss_factors):
      rank_str = str(rank)
      if rank >= 30:
          return 1.0  # Full loss penalty
      return loss_factors.get(rank_str, 1.0)

  def get_win_factor(rank, win_factors):
      rank_str = str(rank)
      if rank <= 40:
          return 1.0  # Full win bonus
      return win_factors.get(rank_str, 0.50)
  \<close>
\<close>

definition get_loss_factor :: "int \<Rightarrow> factors \<Rightarrow> rat" where
  "get_loss_factor rank loss_factors =
     (let rank_str = str_int rank
      in if rank \<ge> 30 then 1 else dict_get loss_factors rank_str 1)"

definition get_win_factor :: "int \<Rightarrow> factors \<Rightarrow> rat" where
  "get_win_factor rank win_factors =
     (let rank_str = str_int rank
      in if rank \<le> 40 then 1 else dict_get win_factors rank_str (1 / 2))"

section \<open>Match records\<close>

text \<open>
  A game is the dict built by \<^verbatim>\<open>parse_excel_file\<close>, with the keys \<^verbatim>\<open>source_file\<close>
  and \<^verbatim>\<open>playlist\<close> that \<^verbatim>\<open>main\<close> adds. \<^verbatim>\<open>details\<close> is the empty dict when the
  Game Details sheet has no row, which is \<open>None\<close> here.
\<close>

record player =
  name :: string
  team :: string
  score_numeric :: int
  kills :: int
  deaths :: int
  assists :: int
  head_shots :: int

record game_details =
  Game_Type :: string
  Variant_Name :: string
  Map_Name :: string
  Start_Time :: string
  End_Time :: string

record game =
  details :: "game_details option"
  players :: "player list"
  source_file :: string
  playlist :: "string option"

definition details_get :: "game \<Rightarrow> (game_details \<Rightarrow> string) \<Rightarrow> string \<Rightarrow> string" where
  \<comment> \<open>\<^verbatim>\<open>game['details'].get(key, default)\<close>\<close>
  "details_get g key dflt = (case details g of None \<Rightarrow> dflt | Some d \<Rightarrow> key d)"

text \<open>
  \<^verbatim>\<open>
  def get_base_gametype(game_type_field):
      if not game_type_field:
          return 'Unknown'
      gt = game_type_field.strip().lower()
      mapping = {...}
      return mapping.get(gt, game_type_field)
  \<close>
\<close>

definition get_base_gametype :: "string \<Rightarrow> string" where
  "get_base_gametype game_type_field =
     (if game_type_field = [] then ''Unknown''
      else let gt = lower (strip game_type_field);
               mapping = [(''ctf'', ''CTF''), (''capture the flag'', ''CTF''),
                          (''slayer'', ''Team Slayer''), (''team slayer'', ''Team Slayer''),
                          (''oddball'', ''Oddball''), (''assault'', ''Bomb''), (''bomb'', ''Bomb''),
                          (''koth'', ''King of the Hill''),
                          (''king of the hill'', ''King of the Hill''),
                          (''king'', ''King of the Hill''), (''territories'', ''Territories''),
                          (''juggernaut'', ''Juggernaut'')]
           in dict_get mapping gt game_type_field)"

section \<open>Outcome resolver\<close>

text \<open>
  \<^verbatim>\<open>
  def determine_winners_losers(game):
      players = game['players']
      teams = {}
      for player in players:
          team = player.get('team', '').strip()
          if team and team in ['Red', 'Blue']:
              if team not in teams:
                  teams[team] = {'score': 0, 'players': []}
              teams[team]['score'] += player.get('score_numeric', 0)
              teams[team]['players'].append(player['name'])
      if len(teams) == 2:
          sorted_teams = sorted(teams.items(), key=lambda x: x[1]['score'], reverse=True)
          winning_team = sorted_teams[0]
          losing_team = sorted_teams[1]
          if winning_team[1]['score'] == losing_team[1]['score']:
              return [], []
          return winning_team[1]['players'], losing_team[1]['players']
      return [], []
  \<close>
  A stable descending sort is the stable ascending sort on the negated score.
\<close>

type_synonym teams = "(string, int \<times> string list) dict"

definition teams_add :: "teams \<Rightarrow> player \<Rightarrow> teams" where
  "teams_add teams p =
     (let t = strip (team p)
      in if t \<noteq> [] \<and> t \<in> set [''Red'', ''Blue''] then
           let teams1 = (if \<not> dict_in t teams then AList.update t (0, []) teams else teams);
               (score, ps) = dict_get teams1 t (0, [])
           in AList.update t (score + score_numeric p, ps @ [name p]) teams1
         else teams)"

definition determine_winners_losers :: "game \<Rightarrow> string list \<times> string list" where
  "determine_winners_losers g =
     (let teams = foldl teams_add [] (players g)
      in if length teams = 2 then
           (case sort_key (\<lambda>x. - fst (snd x)) teams of
              [winning_team, losing_team] \<Rightarrow>
                if fst (snd winning_team) = fst (snd losing_team) then ([], [])
                else (snd (snd winning_team), snd (snd losing_team))
            | _ \<Rightarrow> ([], []))
         else ([], []))"

section \<open>Series detector\<close>

text \<open>
  \<^verbatim>\<open>
  def get_team_signature(game):
      red_team = frozenset(p['name'].lower() for p in game['players'] if p.get('team') == 'Red')
      blue_team = frozenset(p['name'].lower() for p in game['players'] if p.get('team') == 'Blue')
      # Return as tuple with teams sorted to ensure consistent ordering
      return (red_team, blue_team)
  \<close>
\<close>

definition get_team_signature :: "game \<Rightarrow> string set \<times> string set" where
  "get_team_signature g =
     (let red_team = set [lower (name p). p \<leftarrow> players g, team p = ''Red''];
          blue_team = set [lower (name p). p \<leftarrow> players g, team p = ''Blue'']
      in (red_team, blue_team))"

record series_game =
  sg_timestamp :: string
  sg_map :: string
  sg_gametype :: string
  sg_variant_name :: string
  sg_winner :: "string option"
  sg_source_file :: string

text \<open>
  A series dict. \<open>team_sig\<close> is the internal key \<^verbatim>\<open>_team_sig\<close>; deleting it before the
  series is finalized is \<open>None\<close>.
\<close>

record series =
  team_sig :: "(string set \<times> string set) option"
  series_id :: string
  series_playlist :: "string option"
  red_team :: "string list"
  blue_team :: "string list"
  games :: "series_game list"
  red_wins :: int
  blue_wins :: int
  start_time :: string
  end_time :: string
  winner :: string
  series_type :: string

text \<open>
  \<^verbatim>\<open>
  def _finalize_series(series):
      red_wins = series['red_wins']
      blue_wins = series['blue_wins']
      total_games = len(series['games'])
      if total_games <= 3:
          series['series_type'] = 'Bo3'
          wins_needed = 2
      elif total_games <= 5:
          series['series_type'] = 'Bo5'
          wins_needed = 3
      elif total_games <= 7:
          series['series_type'] = 'Bo7'
          wins_needed = 4
      else:
          series['series_type'] = 'Custom'
          wins_needed = (total_games // 2) + 1
      if red_wins >= wins_needed:
          series['winner'] = 'Red'
      elif blue_wins >= wins_needed:
          series['winner'] = 'Blue'
      elif red_wins > blue_wins:
          series['winner'] = 'Red'
      elif blue_wins > red_wins:
          series['winner'] = 'Blue'
      else:
          series['winner'] = 'Tie'
  \<close>
  \<open>series_type_and_wins_needed\<close> is the first \<^verbatim>\<open>if\<close> chain: the type and the local
  \<^verbatim>\<open>wins_needed\<close>.
\<close>

definition series_type_and_wins_needed :: "int \<Rightarrow> string \<times> int" where
  "series_type_and_wins_needed total_games =
     (if total_games \<le> 3 then (''Bo3'', 2)
      else if total_games \<le> 5 then (''Bo5'', 3)
      else if total_games \<le> 7 then (''Bo7'', 4)
      else (''Custom'', total_games div 2 + 1))"

definition finalize_series :: "series \<Rightarrow> series" where
  "finalize_series s =
     (let total_games = int (length (games s));
          (stype, wins_needed) = series_type_and_wins_needed total_games;
          s1 = s\<lparr>series_type := stype\<rparr>
      in if red_wins s \<ge> wins_needed then s1\<lparr>winner := ''Red''\<rparr>
         else if blue_wins s \<ge> wins_needed then s1\<lparr>winner := ''Blue''\<rparr>
         else if red_wins s > blue_wins s then s1\<lparr>winner := ''Red''\<rparr>
         else if blue_wins s > red_wins s then s1\<lparr>winner := ''Blue''\<rparr>
         else s1\<lparr>winner := ''Tie''\<rparr>)"

text \<open>
  The loop of \<^verbatim>\<open>detect_series\<close> keeps \<^verbatim>\<open>series_list\<close>, \<^verbatim>\<open>current_series\<close> and
  \<^verbatim>\<open>series_counter\<close>; \<open>detect_series_step\<close> is one iteration of
  \<^verbatim>\<open>for game in sorted_games\<close>.
\<close>

record detect_state =
  series_list :: "series list"
  current_series :: "series option"
  series_counter :: int

definition game_winner_of :: "game \<Rightarrow> string list \<Rightarrow> string option" where
  \<comment> \<open>the local \<^verbatim>\<open>game_winner\<close>: the team of the first player listed among the winners\<close>
  "game_winner_of g winners =
     (if winners \<noteq> [] then
        (case find (\<lambda>p. name p \<in> set winners) (players g) of
           Some p \<Rightarrow> if team p = ''Red'' then Some ''Red''
                     else if team p = ''Blue'' then Some ''Blue'' else None
         | None \<Rightarrow> None)
      else None)"

definition series_game_entry :: "game \<Rightarrow> string option \<Rightarrow> series_game" where
  "series_game_entry g game_winner =
     \<lparr>sg_timestamp = details_get g Start_Time [],
      sg_map = details_get g Map_Name ''Unknown'',
      sg_gametype = get_base_gametype (details_get g Game_Type []),
      sg_variant_name = details_get g Variant_Name [],
      sg_winner = game_winner,
      sg_source_file = source_file g\<rparr>"

definition close_series :: "detect_state \<Rightarrow> series list" where
  \<comment> \<open>\<^verbatim>\<open>del current_series['_team_sig']; _finalize_series(current_series);
      series_list.append(current_series)\<close> when a series is open\<close>
  "close_series st =
     (case current_series st of
        Some cs \<Rightarrow> series_list st @ [finalize_series (cs\<lparr>team_sig := None\<rparr>)]
      | None \<Rightarrow> series_list st)"

definition detect_series_step :: "(string \<Rightarrow> string) \<Rightarrow> detect_state \<Rightarrow> game \<Rightarrow> detect_state" where
  "detect_series_step get_display_name_func st g =
     (let sig = get_team_signature g;
          winners = fst (determine_winners_losers g);
          red = sort [get_display_name_func (name p). p \<leftarrow> players g, team p = ''Red''];
          blue = sort [get_display_name_func (name p). p \<leftarrow> players g, team p = ''Blue''];
          game_winner = game_winner_of g winners;
          continues = (case current_series st of
                         Some cs \<Rightarrow> team_sig cs = Some sig | None \<Rightarrow> False)
      in if continues then
           st\<lparr>current_series :=
                map_option (\<lambda>cs. cs\<lparr>games := games cs @ [series_game_entry g game_winner],
                                     end_time := details_get g Start_Time [],
                                     red_wins := (if game_winner = Some ''Red''
                                                  then red_wins cs + 1 else red_wins cs),
                                     blue_wins := (if game_winner = Some ''Blue''
                                                   then blue_wins cs + 1 else blue_wins cs)\<rparr>)
                  (current_series st)\<rparr>
         else
           \<lparr>series_list = close_series st,
            current_series = Some
              \<lparr>team_sig = Some sig,
               series_id = ''series_'' @ str_int (series_counter st + 1),
               series_playlist = playlist g,
               red_team = red,
               blue_team = blue,
               games = [series_game_entry g game_winner],
               red_wins = (if game_winner = Some ''Red'' then 1 else 0),
               blue_wins = (if game_winner = Some ''Blue'' then 1 else 0),
               start_time = details_get g Start_Time [],
               end_time = details_get g Start_Time [],
               winner = ''Ongoing'',
               series_type = ''Custom''\<rparr>,
            series_counter = series_counter st + 1\<rparr>)"



section \<open>Progression ledger\<close>

text \<open>
  Statements that may raise are composed with \<open>bind_err\<close>; \<open>fold_err\<close> is a
  \<^verbatim>\<open>for\<close> loop whose body may raise.
\<close>

definition bind_err :: "py_error + 'a \<Rightarrow> ('a \<Rightarrow> py_error + 'b) \<Rightarrow> py_error + 'b" where
  "bind_err m f = (case m of Inl e \<Rightarrow> Inl e | Inr v \<Rightarrow> f v)"

fun fold_err :: "('s \<Rightarrow> 'a \<Rightarrow> py_error + 's) \<Rightarrow> 's \<Rightarrow> 'a list \<Rightarrow> py_error + 's" where
  "fold_err f s [] = Inr s"
| "fold_err f s (x # xs) = bind_err (f s x) (\<lambda>s'. fold_err f s' xs)"

definition subscript :: "(string, 'v) dict \<Rightarrow> string \<Rightarrow> py_error + 'v" where
  \<comment> \<open>\<^verbatim>\<open>d[k]\<close>\<close>
  "subscript d k = (case map_of d k of None \<Rightarrow> Inl (KeyError k) | Some v \<Rightarrow> Inr v)"

type_synonym 'v dict2 = "(string, (string, 'v) dict) dict"

definition get2 :: "'v dict2 \<Rightarrow> string \<Rightarrow> string \<Rightarrow> py_error + 'v" where
  \<comment> \<open>\<^verbatim>\<open>d[a][b]\<close>\<close>
  "get2 d a b = bind_err (subscript d a) (\<lambda>m. subscript m b)"

definition set2 :: "'v dict2 \<Rightarrow> string \<Rightarrow> string \<Rightarrow> 'v \<Rightarrow> py_error + 'v dict2" where
  \<comment> \<open>\<^verbatim>\<open>d[a][b] = v\<close>\<close>
  "set2 d a b v = bind_err (subscript d a) (\<lambda>m. Inr (AList.update a (AList.update b v m) d))"

definition add2 :: "int dict2 \<Rightarrow> string \<Rightarrow> string \<Rightarrow> int \<Rightarrow> py_error + int dict2" where
  \<comment> \<open>\<^verbatim>\<open>d[a][b] += k\<close>\<close>
  "add2 d a b k = bind_err (get2 d a b) (\<lambda>x. set2 d a b (x + k))"

record xp_config =
  rank_thresholds :: rank_thresholds
  game_win :: int
  game_loss :: int
  loss_factors :: factors
  win_factors :: factors

record game_stats =
  gs_kills :: int
  gs_deaths :: int
  gs_assists :: int
  gs_games :: int
  gs_headshots :: int

text \<open>
  The dicts that \<^verbatim>\<open>main\<close> keeps per in-game name: \<^verbatim>\<open>player_game_stats\<close> and the six
  \<^verbatim>\<open>player_playlist_*\<close> dicts \<^verbatim>\<open>{player_name: {playlist: value}}\<close>.
\<close>

record tracking =
  player_game_stats :: "(string, game_stats) dict"
  player_playlist_xp :: "int dict2"
  player_playlist_wins :: "int dict2"
  player_playlist_losses :: "int dict2"
  player_playlist_games :: "int dict2"
  player_playlist_rank :: "int dict2"
  player_playlist_highest_rank :: "int dict2"

fun contains_from :: "string \<Rightarrow> string \<Rightarrow> bool" where
  "contains_from sub [] = (sub = [])"
| "contains_from sub (c # cs) = (take (length sub) (c # cs) = sub \<or> contains_from sub cs)"

definition str_in :: "string \<Rightarrow> string \<Rightarrow> bool" where
  \<comment> \<open>\<^verbatim>\<open>sub in s\<close> on strings\<close>
  "str_in sub s = contains_from sub s"

text \<open>
  \<^verbatim>\<open>
  DEDICATED_SERVER_NAMES = {'statsdedi', 'dedi', 'dedicated', 'server'}

  def is_dedicated_server(player_name):
      name_lower = player_name.strip().lower()
      if name_lower in DEDICATED_SERVER_NAMES:
          return True
      if 'dedi' in name_lower and len(name_lower) <= 15:
          return True
      return False
  \<close>
\<close>

definition is_dedicated_server :: "string \<Rightarrow> bool" where
  "is_dedicated_server player_name =
     (let name_lower = lower (strip player_name)
      in if name_lower \<in> set [''statsdedi'', ''dedi'', ''dedicated'', ''server''] then True
         else if str_in ''dedi'' name_lower \<and> length name_lower \<le> 15 then True
         else False)"

text \<open>
  One iteration of \<^verbatim>\<open>for player in game['players']\<close> in step 3b of \<^verbatim>\<open>main\<close>, after
  the two \<^verbatim>\<open>continue\<close> tests, on the tracking dicts:
  \<^verbatim>\<open>
  if playlist not in player_playlist_xp[player_name]:
      player_playlist_xp[player_name][playlist] = 0
      player_playlist_wins[player_name][playlist] = 0
      player_playlist_losses[player_name][playlist] = 0
      player_playlist_games[player_name][playlist] = 0
      player_playlist_rank[player_name][playlist] = 1
      player_playlist_highest_rank[player_name][playlist] = 1
  old_xp = player_playlist_xp[player_name][playlist]
  rank_before = player_playlist_rank[player_name][playlist]
  xp_change = 0
  game_result = 'tie'
  if player_name in winners:
      player_playlist_wins[player_name][playlist] += 1
      player_playlist_games[player_name][playlist] += 1
      win_factor = get_win_factor(rank_before, win_factors)
      xp_change = int(xp_win * win_factor)
      player_playlist_xp[player_name][playlist] += xp_change
      game_result = 'win'
  elif player_name in losers:
      player_playlist_losses[player_name][playlist] += 1
      player_playlist_games[player_name][playlist] += 1
      loss_factor = get_loss_factor(rank_before, loss_factors)
      xp_change = int(xp_loss * loss_factor)  # xp_loss is negative
      player_playlist_xp[player_name][playlist] += xp_change
      if player_playlist_xp[player_name][playlist] < 0:
          player_playlist_xp[player_name][playlist] = 0
      game_result = 'loss'
  else:
      player_playlist_games[player_name][playlist] += 1
  new_xp = player_playlist_xp[player_name][playlist]
  new_rank = calculate_rank(new_xp, rank_thresholds)
  player_playlist_rank[player_name][playlist] = new_rank
  if new_rank > player_playlist_highest_rank[player_name][playlist]:
      player_playlist_highest_rank[player_name][playlist] = new_rank
  \<close>
\<close>

definition init_playlist_tracking :: "string \<Rightarrow> string \<Rightarrow> tracking \<Rightarrow> py_error + tracking" where
  "init_playlist_tracking n pl t =
     bind_err (subscript (player_playlist_xp t) n) (\<lambda>m.
       if dict_in pl m then Inr t
       else
         bind_err (set2 (player_playlist_xp t) n pl 0) (\<lambda>xp.
         bind_err (set2 (player_playlist_wins t) n pl 0) (\<lambda>wins.
         bind_err (set2 (player_playlist_losses t) n pl 0) (\<lambda>losses.
         bind_err (set2 (player_playlist_games t) n pl 0) (\<lambda>games.
         bind_err (set2 (player_playlist_rank t) n pl 1) (\<lambda>rank.
         bind_err (set2 (player_playlist_highest_rank t) n pl 1) (\<lambda>highest.
           Inr (t\<lparr>player_playlist_xp := xp, player_playlist_wins := wins,
                   player_playlist_losses := losses, player_playlist_games := games,
                   player_playlist_rank := rank,
                   player_playlist_highest_rank := highest\<rparr>))))))))"

record ledger_event =
  ev_xp_change :: int
  ev_xp_total :: int
  ev_rank_before :: int
  ev_rank_after :: int
  ev_result :: string

definition apply_result ::
  "xp_config \<Rightarrow> string list \<Rightarrow> string list \<Rightarrow> string \<Rightarrow> string \<Rightarrow> int \<Rightarrow> tracking
     \<Rightarrow> py_error + (tracking \<times> int \<times> string)" where
  "apply_result cfg winners losers n pl rank_before t =
     (if n \<in> set winners then
        bind_err (add2 (player_playlist_wins t) n pl 1) (\<lambda>wins.
        bind_err (add2 (player_playlist_games t) n pl 1) (\<lambda>games.
          let win_factor = get_win_factor rank_before (win_factors cfg);
              xp_change = py_int (py_float_mul (game_win cfg) win_factor)
          in bind_err (add2 (player_playlist_xp t) n pl xp_change) (\<lambda>xp.
               Inr (t\<lparr>player_playlist_wins := wins, player_playlist_games := games,
                       player_playlist_xp := xp\<rparr>, xp_change, ''win''))))
      else if n \<in> set losers then
        bind_err (add2 (player_playlist_losses t) n pl 1) (\<lambda>losses.
        bind_err (add2 (player_playlist_games t) n pl 1) (\<lambda>games.
          let loss_factor = get_loss_factor rank_before (loss_factors cfg);
              xp_change = py_int (py_float_mul (game_loss cfg) loss_factor)
          in bind_err (add2 (player_playlist_xp t) n pl xp_change) (\<lambda>xp.
             bind_err (get2 xp n pl) (\<lambda>v.
             bind_err (if v < 0 then set2 xp n pl 0 else Inr xp) (\<lambda>xp'.
               Inr (t\<lparr>player_playlist_losses := losses, player_playlist_games := games,
                       player_playlist_xp := xp'\<rparr>, xp_change, ''loss''))))))
      else
        bind_err (add2 (player_playlist_games t) n pl 1) (\<lambda>games.
          Inr (t\<lparr>player_playlist_games := games\<rparr>, 0, ''tie'')))"

definition update_rank ::
  "xp_config \<Rightarrow> string \<Rightarrow> string \<Rightarrow> tracking \<Rightarrow> py_error + (tracking \<times> int \<times> int)" where
  \<comment> \<open>from \<^verbatim>\<open>new_xp = ...\<close> to the update of the highest rank\<close>
  "update_rank cfg n pl t =
     bind_err (get2 (player_playlist_xp t) n pl) (\<lambda>new_xp.
       let new_rank = calculate_rank new_xp (rank_thresholds cfg)
       in bind_err (set2 (player_playlist_rank t) n pl new_rank) (\<lambda>rank.
          bind_err (get2 (player_playlist_highest_rank t) n pl) (\<lambda>h.
          bind_err (if new_rank > h then set2 (player_playlist_highest_rank t) n pl new_rank
                    else Inr (player_playlist_highest_rank t)) (\<lambda>highest.
            Inr (t\<lparr>player_playlist_rank := rank, player_playlist_highest_rank := highest\<rparr>,
                 new_xp, new_rank)))))"

definition ledger_update ::
  "xp_config \<Rightarrow> string list \<Rightarrow> string list \<Rightarrow> string \<Rightarrow> string \<Rightarrow> tracking
     \<Rightarrow> py_error + (tracking \<times> ledger_event)" where
  "ledger_update cfg winners losers pl n t0 =
     bind_err (init_playlist_tracking n pl t0) (\<lambda>t.
     bind_err (get2 (player_playlist_xp t) n pl) (\<lambda>old_xp.
     bind_err (get2 (player_playlist_rank t) n pl) (\<lambda>rank_before.
     bind_err (apply_result cfg winners losers n pl rank_before t) (\<lambda>(t1, xp_change, game_result).
     bind_err (update_rank cfg n pl t1) (\<lambda>(t2, new_xp, new_rank).
       Inr (t2, \<lparr>ev_xp_change = xp_change, ev_xp_total = new_xp,
                 ev_rank_before = rank_before, ev_rank_after = new_rank,
                 ev_result = game_result\<rparr>))))))"

section \<open>Playlist classification\<close>

text \<open>
  What \<^verbatim>\<open>determine_playlist\<close> reads from a stats file through the pandas helpers
  (\<^verbatim>\<open>get_game_duration_seconds\<close>, \<^verbatim>\<open>get_game_player_count\<close>, \<^verbatim>\<open>is_team_game\<close>,
  \<^verbatim>\<open>get_game_players\<close> and the Game Details row) is a record of those results.
\<close>

record stats_file =
  sf_filename :: string
  sf_duration_seconds :: int
  sf_player_count :: int
  sf_is_team :: bool
  sf_players :: "string list"
  sf_map_name :: string
  sf_base_gametype :: string

record active_match =
  am_playlist :: string
  am_red_team :: "string list"
  am_blue_team :: "string list"

definition PLAYLIST_MLG_4V4 :: string where "PLAYLIST_MLG_4V4 = ''MLG 4v4''"
definition PLAYLIST_TEAM_HARDCORE :: string where "PLAYLIST_TEAM_HARDCORE = ''Team Hardcore''"
definition PLAYLIST_DOUBLE_TEAM :: string where "PLAYLIST_DOUBLE_TEAM = ''Double Team''"
definition PLAYLIST_HEAD_TO_HEAD :: string where "PLAYLIST_HEAD_TO_HEAD = ''Head to Head''"

definition MIN_GAME_DURATION_SECONDS :: int where "MIN_GAME_DURATION_SECONDS = 120"

definition VALID_MLG_4V4_COMBOS :: "(string, string list) dict" where
  "VALID_MLG_4V4_COMBOS =
     [(''Midship'', [''ctf'', ''slayer'', ''oddball'', ''assault'']),
      (''Beaver Creek'', [''ctf'', ''slayer'']),
      (''Lockout'', [''slayer'', ''oddball'']),
      (''Warlock'', [''ctf'', ''slayer'', ''oddball'']),
      (''Sanctuary'', [''ctf'', ''slayer''])]"

text \<open>
  \<^verbatim>\<open>
  def is_valid_mlg_combo(map_name, base_gametype):
      if map_name not in VALID_MLG_4V4_COMBOS:
          return False
      valid_gametypes = VALID_MLG_4V4_COMBOS[map_name]
      base_gametype_lower = base_gametype.lower()
      gametype_aliases = {'capture_the_flag': 'ctf', 'king_of_the_hill': 'koth', 'king': 'koth'}
      normalized_gametype = gametype_aliases.get(base_gametype_lower, base_gametype_lower)
      for valid_type in valid_gametypes:
          if valid_type in normalized_gametype or normalized_gametype in valid_type:
              return True
      return False
  \<close>
\<close>

definition is_valid_mlg_combo :: "string \<Rightarrow> string \<Rightarrow> bool" where
  "is_valid_mlg_combo map_name base_gametype =
     (case map_of VALID_MLG_4V4_COMBOS map_name of
        None \<Rightarrow> False
      | Some valid_gametypes \<Rightarrow>
          let base_gametype_lower = lower base_gametype;
              gametype_aliases = [(''capture_the_flag'', ''ctf''), (''king_of_the_hill'', ''koth''),
                                  (''king'', ''koth'')];
              normalized_gametype = dict_get gametype_aliases base_gametype_lower base_gametype_lower
          in list_ex (\<lambda>valid_type. str_in valid_type normalized_gametype \<or>
                                     str_in normalized_gametype valid_type) valid_gametypes)"

text \<open>
  \<^verbatim>\<open>
  def players_match_active_match(game_players, active_match):
      if not active_match:
          return False
      active_players = set()
      if active_match.get('red_team'):
          active_players.update([p.lower() for p in active_match['red_team']])
      if active_match.get('blue_team'):
          active_players.update([p.lower() for p in active_match['blue_team']])
      if not active_players:
          return False
      game_players_lower = [p.lower() for p in game_players]
      matches = sum(1 for p in game_players_lower if p in active_players)
      return matches >= len(game_players) * 0.75
  \<close>
\<close>

definition players_match_active_match :: "string list \<Rightarrow> active_match option \<Rightarrow> bool" where
  "players_match_active_match game_players active_match =
     (case active_match of
        None \<Rightarrow> False
      | Some am \<Rightarrow>
          let active_players = map lower (am_red_team am) @ map lower (am_blue_team am)
          in if active_players = [] then False
             else let game_players_lower = map lower game_players;
                      matches = int (length (filter (\<lambda>p. p \<in> set active_players) game_players_lower))
                  in of_int matches \<ge> py_float_mul (int (length game_players)) (3 / 4))"

text \<open>
  \<^verbatim>\<open>
  def determine_playlist(file_path, active_match=None, manual_playlists=None):
      if manual_playlists:
          filename = os.path.basename(file_path)
          if filename in manual_playlists:
              return manual_playlists[filename]
      if not is_game_long_enough(file_path):
          return None
      ...
      if active_match:
          active_playlist = active_match.get('playlist', '')
          if active_playlist == PLAYLIST_HEAD_TO_HEAD:
              if player_count == 2 and players_match_active_match(game_players, active_match):
                  return PLAYLIST_HEAD_TO_HEAD
          elif active_playlist == PLAYLIST_DOUBLE_TEAM:
              if player_count == 4 and is_team and players_match_active_match(game_players, active_match):
                  return PLAYLIST_DOUBLE_TEAM
          elif active_playlist in [PLAYLIST_MLG_4V4, PLAYLIST_TEAM_HARDCORE]:
              if player_count == 8 and is_team:
                  if is_valid_mlg_combo(map_name, base_gametype):
                      if players_match_active_match(game_players, active_match):
                          return active_playlist
      return None
  \<close>
\<close>

definition determine_playlist ::
  "stats_file \<Rightarrow> active_match option \<Rightarrow> (string, string) dict \<Rightarrow> string option" where
  "determine_playlist f active_match manual_playlists =
     (if manual_playlists \<noteq> [] \<and> dict_in (sf_filename f) manual_playlists
      then map_of manual_playlists (sf_filename f)
      else if \<not> (sf_duration_seconds f \<ge> MIN_GAME_DURATION_SECONDS) then None
      else case active_match of
             None \<Rightarrow> None
           | Some am \<Rightarrow>
               let active_playlist = am_playlist am
               in if active_playlist = PLAYLIST_HEAD_TO_HEAD then
                    (if sf_player_count f = 2 \<and> players_match_active_match (sf_players f) active_match
                     then Some PLAYLIST_HEAD_TO_HEAD else None)
                  else if active_playlist = PLAYLIST_DOUBLE_TEAM then
                    (if sf_player_count f = 4 \<and> sf_is_team f
                        \<and> players_match_active_match (sf_players f) active_match
                     then Some PLAYLIST_DOUBLE_TEAM else None)
                  else if active_playlist \<in> set [PLAYLIST_MLG_4V4, PLAYLIST_TEAM_HARDCORE] then
                    (if sf_player_count f = 8 \<and> sf_is_team f
                        \<and> is_valid_mlg_combo (sf_map_name f) (sf_base_gametype f)
                        \<and> players_match_active_match (sf_players f) active_match
                     then Some active_playlist else None)
                  else None)"

section \<open>Checkpoint manager\<close>

record pl_state =
  pl_xp :: int
  pl_rank :: int
  pl_highest_rank :: int
  pl_wins :: int
  pl_losses :: int
  pl_games :: int

text \<open>An entry of \<^verbatim>\<open>processed_state['player_state']\<close>.\<close>

record saved_player =
  sp_xp :: int
  sp_rank :: int
  sp_wins :: int
  sp_losses :: int
  sp_total_games :: int
  sp_kills :: int
  sp_deaths :: int
  sp_assists :: int
  sp_headshots :: int
  sp_highest_rank :: int
  sp_playlists :: "(string, pl_state) dict"

text \<open>
  The content of processed\_state.json. A JSON \<^verbatim>\<open>null\<close> playlist is \<open>None\<close>.
  \<^verbatim>\<open>manual_playlists_hash\<close> is left out: \<^verbatim>\<open>check_for_changes\<close> computes the old and the
  new hash and reads neither.
\<close>

record processed_state =
  ps_games :: "(string, string option) dict"
  ps_player_state :: "(string, saved_player) dict"
  ps_player_name_to_id :: "(string, string) dict"

text \<open>
  \<^verbatim>\<open>
  def check_for_changes(stats_files, manual_playlists, processed_state):
      old_games = processed_state.get("games", {})
      ...
      new_files = []
      changed_playlists = {}
      for filename in stats_files:
          old_playlist = old_games.get(filename)
          new_playlist = manual_playlists.get(filename)  # None if not in manual
          if filename not in old_games:
              new_files.append(filename)
          elif old_playlist != new_playlist:
              changed_playlists[filename] = {"old": old_playlist, "new": new_playlist}
      needs_full_rebuild = len(changed_playlists) > 0
      return needs_full_rebuild, new_files, changed_playlists
  \<close>
\<close>

type_synonym changed_playlists = "(string, string option \<times> string option) dict"

definition check_file ::
  "(string, string) dict \<Rightarrow> (string, string option) dict \<Rightarrow> string list \<times> changed_playlists
     \<Rightarrow> string \<Rightarrow> string list \<times> changed_playlists" where
  "check_file manual_playlists old_games acc filename =
     (let (new_files, changed_playlists) = acc;
          old_playlist = dict_get old_games filename None;
          new_playlist = map_of manual_playlists filename
      in if \<not> dict_in filename old_games then (new_files @ [filename], changed_playlists)
         else if old_playlist \<noteq> new_playlist
         then (new_files, AList.update filename (old_playlist, new_playlist) changed_playlists)
         else (new_files, changed_playlists))"

definition check_for_changes ::
  "string list \<Rightarrow> (string, string) dict \<Rightarrow> processed_state
     \<Rightarrow> bool \<times> string list \<times> changed_playlists" where
  "check_for_changes stats_files manual_playlists processed_state =
     (let old_games = ps_games processed_state;
          (new_files, changed_playlists) =
             foldl (check_file manual_playlists old_games) ([], []) stats_files;
          needs_full_rebuild = (length changed_playlists > 0)
      in (needs_full_rebuild, new_files, changed_playlists))"

text \<open>
  The mode chosen by \<^verbatim>\<open>main\<close> from the result of \<^verbatim>\<open>check_for_changes\<close>:
  \<^verbatim>\<open>
  if not new_files and not changed_playlists:
      print("\nNo changes detected - nothing to process!")
      return
  incremental_mode = not needs_full_rebuild and len(new_files) > 0
  saved_player_state = load_player_state_from_processed(processed_state) if incremental_mode else {}
  if needs_full_rebuild:
      ...
  elif incremental_mode and saved_player_state:
      ...
  else:
      incremental_mode = False
  \<close>
\<close>

datatype plan =
    NothingToProcess
  | Full
  | Incremental "string list" "(string, saved_player) dict"

definition processing_mode ::
  "bool \<Rightarrow> string list \<Rightarrow> processed_state \<Rightarrow> bool \<times> (string, saved_player) dict" where
  "processing_mode needs_full_rebuild new_files processed_state =
     (let incremental_mode = (\<not> needs_full_rebuild \<and> length new_files > 0);
          saved_player_state = (if incremental_mode then ps_player_state processed_state else [])
      in if needs_full_rebuild then (incremental_mode, saved_player_state)
         else if incremental_mode \<and> saved_player_state \<noteq> [] then (incremental_mode, saved_player_state)
         else (False, saved_player_state))"

definition checkpoint_plan ::
  "string list \<Rightarrow> (string, string) dict \<Rightarrow> processed_state \<Rightarrow> plan" where
  "checkpoint_plan stats_files manual_playlists processed_state =
     (let (needs_full_rebuild, new_files, changed_playlists) =
            check_for_changes stats_files manual_playlists processed_state
      in if new_files = [] \<and> changed_playlists = [] then NothingToProcess
         else let (incremental_mode, saved_player_state) =
                    processing_mode needs_full_rebuild new_files processed_state
              in if incremental_mode \<and> saved_player_state \<noteq> []
                 then Incremental new_files saved_player_state
                 else Full)"


section \<open>Run orchestrator\<close>

text \<open>
  An entry of \<^verbatim>\<open>rankstats\<close>. Every key that \<^verbatim>\<open>main\<close> reads with
  \<^verbatim>\<open>data.get(key, default)\<close> is a field holding the default when the key is absent;
  \<^verbatim>\<open>discord_name\<close> is read with two different defaults and is an option.
  \<open>rs_playlist_rank\<close> holds the flat keys \<^verbatim>\<open>rankstats[user_id][playlist]\<close>. The keys
  \<^verbatim>\<open>mmr\<close>, \<^verbatim>\<open>alias\<close> and the series counters are not read by the steps modelled here.
\<close>

record rankstats_entry =
  rs_xp :: int
  rs_rank :: int
  rs_wins :: int
  rs_losses :: int
  rs_total_games :: int
  rs_kills :: int
  rs_deaths :: int
  rs_assists :: int
  rs_headshots :: int
  rs_highest_rank :: int
  rs_playlists :: "(string, pl_state) dict"
  rs_playlist_rank :: "(string, int) dict"
  rs_discord_name :: "string option"

type_synonym rankstats = "(string, rankstats_entry) dict"

text \<open>
  Step 1 of \<^verbatim>\<open>main\<close>:
  \<^verbatim>\<open>
  if incremental_mode and saved_player_state:
      for user_id, state in saved_player_state.items():
          if user_id in rankstats:
              for playlist, pl_state in state.get('playlists', {}).items():
                  if 'playlists' not in rankstats[user_id]:
                      rankstats[user_id]['playlists'] = {}
                  rankstats[user_id]['playlists'][playlist] = pl_state.copy()
                  rankstats[user_id][playlist] = pl_state.get('rank', 1)
              rankstats[user_id]['xp'] = state.get('xp', 0)
              ... rank, wins, losses, total_games, kills, deaths, assists, headshots, highest_rank
  else:
      for user_id in rankstats:
          rankstats[user_id]['xp'] = 0
          rankstats[user_id]['wins'] = 0
          rankstats[user_id]['losses'] = 0
          rankstats[user_id]['total_games'] = 0
          ...
          rankstats[user_id]['rank'] = 1
          for key in ['kills', 'deaths', 'assists', 'headshots']:
              if key in rankstats[user_id]:
                  del rankstats[user_id][key]
  \<close>
\<close>

definition restore_entry :: "saved_player \<Rightarrow> rankstats_entry \<Rightarrow> rankstats_entry" where
  "restore_entry state e =
     e\<lparr>rs_playlists := foldl (\<lambda>d (playlist, st). AList.update playlist st d)
                          (rs_playlists e) (sp_playlists state),
       rs_playlist_rank := foldl (\<lambda>d (playlist, st). AList.update playlist (pl_rank st) d)
                             (rs_playlist_rank e) (sp_playlists state),
       rs_xp := sp_xp state, rs_rank := sp_rank state, rs_wins := sp_wins state,
       rs_losses := sp_losses state, rs_total_games := sp_total_games state,
       rs_kills := sp_kills state, rs_deaths := sp_deaths state,
       rs_assists := sp_assists state, rs_headshots := sp_headshots state,
       rs_highest_rank := sp_highest_rank state\<rparr>"

definition zero_entry :: "rankstats_entry \<Rightarrow> rankstats_entry" where
  "zero_entry e =
     e\<lparr>rs_xp := 0, rs_wins := 0, rs_losses := 0, rs_total_games := 0, rs_rank := 1,
       rs_kills := 0, rs_deaths := 0, rs_assists := 0, rs_headshots := 0\<rparr>"

definition step1 :: "bool \<Rightarrow> (string, saved_player) dict \<Rightarrow> rankstats \<Rightarrow> rankstats" where
  "step1 incremental_mode saved_player_state rankstats =
     (if incremental_mode \<and> saved_player_state \<noteq> [] then
        foldl (\<lambda>rs (user_id, state).
                 case map_of rs user_id of
                   Some e \<Rightarrow> AList.update user_id (restore_entry state e) rs
                 | None \<Rightarrow> rs) rankstats saved_player_state
      else map (\<lambda>(user_id, e). (user_id, zero_entry e)) rankstats)"

text \<open>
  Step 2 takes the games as parsed and classified: \<open>playlist g\<close> is the result of
  \<^verbatim>\<open>determine_playlist\<close> for the file of \<open>g\<close>, and \<open>all_games\<close> is in the order of
  \<^verbatim>\<open>get_all_game_files\<close>.
  \<^verbatim>\<open>
  ranked_games = games_by_playlist.get(PLAYLIST_MLG_4V4, [])
  ranked_games.extend(games_by_playlist.get(PLAYLIST_TEAM_HARDCORE, []))
  ranked_games.extend(games_by_playlist.get(PLAYLIST_DOUBLE_TEAM, []))
  ranked_games.extend(games_by_playlist.get(PLAYLIST_HEAD_TO_HEAD, []))
  \<close>
\<close>

definition games_of_playlist :: "game list \<Rightarrow> string \<Rightarrow> game list" where
  \<comment> \<open>\<^verbatim>\<open>games_by_playlist.get(playlist_name, [])\<close> as built by step 2\<close>
  "games_of_playlist all_games playlist_name =
     (if playlist_name = [] then [] else filter (\<lambda>g. playlist g = Some playlist_name) all_games)"

definition ranked_games :: "game list \<Rightarrow> game list" where
  "ranked_games all_games =
     games_of_playlist all_games PLAYLIST_MLG_4V4 @ games_of_playlist all_games PLAYLIST_TEAM_HARDCORE @
     games_of_playlist all_games PLAYLIST_DOUBLE_TEAM @ games_of_playlist all_games PLAYLIST_HEAD_TO_HEAD"

subsection \<open>Identity resolution\<close>

definition UNICODE_NAME_MAPPINGS :: "(string, string) dict" where
  \<comment> \<open>the two ASCII keys; the third key consists of private-use code points\<close>
  "UNICODE_NAME_MAPPINGS =
     [(''isis rinsy isis'', ''210187331066396672''), (''isisrinsyisis'', ''210187331066396672'')]"

definition is_alnum :: "char \<Rightarrow> bool" where
  "is_alnum c = ((CHR ''0'' \<le> c \<and> c \<le> CHR ''9'') \<or> (CHR ''A'' \<le> c \<and> c \<le> CHR ''Z'') \<or>
                 (CHR ''a'' \<le> c \<and> c \<le> CHR ''z''))"

text \<open>
  \<^verbatim>\<open>
  def resolve_player_to_discord(player_name, identity_name_to_mac, mac_to_discord, profile_lookup, rankstats):
      name_lower = player_name.strip().lower()
      name_raw = player_name.strip()
      if name_raw in UNICODE_NAME_MAPPINGS:
          return UNICODE_NAME_MAPPINGS[name_raw]
      if name_lower in UNICODE_NAME_MAPPINGS:
          return UNICODE_NAME_MAPPINGS[name_lower]
      name_stripped = ''.join(c for c in name_lower if c.isalnum() or c.isspace()).strip()
      name_no_spaces = name_stripped.replace(' ', '')
      if name_stripped in UNICODE_NAME_MAPPINGS:
          return UNICODE_NAME_MAPPINGS[name_stripped]
      if name_no_spaces in UNICODE_NAME_MAPPINGS:
          return UNICODE_NAME_MAPPINGS[name_no_spaces]
      if name_lower in identity_name_to_mac:
          mac = identity_name_to_mac[name_lower]
          if mac in mac_to_discord:
              return mac_to_discord[mac]
      if name_lower in profile_lookup:
          return profile_lookup[name_lower]
      for user_id, data in rankstats.items():
          discord_name = data.get('discord_name', '').lower()
          if discord_name == name_lower:
              return user_id
      return None
  \<close>
\<close>

definition resolve_player_to_discord ::
  "string \<Rightarrow> (string, string) dict \<Rightarrow> (string, string) dict \<Rightarrow> (string, string) dict
     \<Rightarrow> rankstats \<Rightarrow> string option" where
  "resolve_player_to_discord player_name identity_name_to_mac mac_to_discord profile_lookup rankstats =
     (let name_lower = lower (strip player_name);
          name_raw = strip player_name;
          name_stripped = strip (filter (\<lambda>c. is_alnum c \<or> is_space c) name_lower);
          name_no_spaces = filter (\<lambda>c. c \<noteq> CHR '' '') name_stripped;
          by_mac = (case map_of identity_name_to_mac name_lower of
                      Some mac \<Rightarrow> map_of mac_to_discord mac | None \<Rightarrow> None)
      in if dict_in name_raw UNICODE_NAME_MAPPINGS then map_of UNICODE_NAME_MAPPINGS name_raw
         else if dict_in name_lower UNICODE_NAME_MAPPINGS then map_of UNICODE_NAME_MAPPINGS name_lower
         else if dict_in name_stripped UNICODE_NAME_MAPPINGS
           then map_of UNICODE_NAME_MAPPINGS name_stripped
         else if dict_in name_no_spaces UNICODE_NAME_MAPPINGS
           then map_of UNICODE_NAME_MAPPINGS name_no_spaces
         else if by_mac \<noteq> None then by_mac
         else if dict_in name_lower profile_lookup then map_of profile_lookup name_lower
         else map_option fst
                (find (\<lambda>(user_id, data).
                         lower (case rs_discord_name data of Some d \<Rightarrow> d | None \<Rightarrow> []) = name_lower)
                   rankstats))"

text \<open>
  What the environment of one run supplies to the identity loop: the name-to-MAC mapping
  that \<^verbatim>\<open>main\<close> selects for a game (\<^verbatim>\<open>get_identity_file_for_game\<close>), the lookups built
  from players.json, and the interpreter's \<^verbatim>\<open>hash\<close> on strings.
\<close>

record environment =
  identity_for_game :: "game \<Rightarrow> (string, string) dict"
  mac_to_discord :: "(string, string) dict"
  profile_lookup :: "(string, string) dict"
  py_hash :: "string \<Rightarrow> int"

text \<open>
  The state of the loop \<^verbatim>\<open>for game in all_games: ... for player in game['players']\<close>
  of step 3. The set \<^verbatim>\<open>all_player_names\<close> is kept as the list of its elements in the
  order in which they were added.
\<close>

record identity_state =
  id_all_player_names :: "string list"
  id_player_to_id :: "(string, string) dict"
  id_rankstats :: rankstats
  id_tracking :: tracking

definition temp_entry :: "string \<Rightarrow> rankstats_entry" where
  \<comment> \<open>the entry created for an unmatched player\<close>
  "temp_entry player_name =
     \<lparr>rs_xp = 0, rs_rank = 1, rs_wins = 0, rs_losses = 0, rs_total_games = 0,
      rs_kills = 0, rs_deaths = 0, rs_assists = 0, rs_headshots = 0, rs_highest_rank = 1,
      rs_playlists = [], rs_playlist_rank = [], rs_discord_name = Some player_name\<rparr>"

definition init_player_tracking ::
  "bool \<Rightarrow> (string, saved_player) dict \<Rightarrow> string option \<Rightarrow> string \<Rightarrow> tracking \<Rightarrow> tracking" where
  \<comment> \<open>\<^verbatim>\<open>if player_name not in player_game_stats: ...\<close>\<close>
  "init_player_tracking incremental_mode saved_player_state user_id player_name t =
     (if dict_in player_name (player_game_stats t) then t
      else
        case (if incremental_mode then
                (case user_id of
                   Some u \<Rightarrow> if u \<noteq> [] then map_of saved_player_state u else None
                 | None \<Rightarrow> None)
              else None) of
          Some saved \<Rightarrow>
            t\<lparr>player_game_stats := AList.update player_name
                 \<lparr>gs_kills = sp_kills saved, gs_deaths = sp_deaths saved,
                  gs_assists = sp_assists saved, gs_games = sp_total_games saved,
                  gs_headshots = sp_headshots saved\<rparr> (player_game_stats t),
              player_playlist_xp := AList.update player_name
                 (foldl (\<lambda>d (pl, st). AList.update pl (pl_xp st) d) [] (sp_playlists saved))
                 (player_playlist_xp t),
              player_playlist_wins := AList.update player_name
                 (foldl (\<lambda>d (pl, st). AList.update pl (pl_wins st) d) [] (sp_playlists saved))
                 (player_playlist_wins t),
              player_playlist_losses := AList.update player_name
                 (foldl (\<lambda>d (pl, st). AList.update pl (pl_losses st) d) [] (sp_playlists saved))
                 (player_playlist_losses t),
              player_playlist_games := AList.update player_name
                 (foldl (\<lambda>d (pl, st). AList.update pl (pl_games st) d) [] (sp_playlists saved))
                 (player_playlist_games t)\<rparr>
        | None \<Rightarrow>
            t\<lparr>player_game_stats := AList.update player_name
                 \<lparr>gs_kills = 0, gs_deaths = 0, gs_assists = 0, gs_games = 0, gs_headshots = 0\<rparr>
                 (player_game_stats t),
              player_playlist_xp := AList.update player_name [] (player_playlist_xp t),
              player_playlist_wins := AList.update player_name [] (player_playlist_wins t),
              player_playlist_losses := AList.update player_name [] (player_playlist_losses t),
              player_playlist_games := AList.update player_name [] (player_playlist_games t)\<rparr>)"

text \<open>
  One player of one game in the identity loop:
  \<^verbatim>\<open>
  player_name = player['name']
  if is_dedicated_server(player_name):
      continue
  all_player_names.add(player_name)
  # Skip if already resolved
  if player_name in player_to_id:
      continue
  user_id = resolve_player_to_discord(
      player_name, identity_name_to_mac, mac_to_discord, profile_lookup, rankstats)
  if user_id:
      player_to_id[player_name] = user_id
  else:
      temp_id = str(abs(hash(player_name)) % 10**18)
      player_to_id[player_name] = temp_id
      rankstats[temp_id] = {...}
  # Initialize overall stats tracking (from ALL games) - only if not already initialized
  if player_name not in player_game_stats:
      ...
  \<close>
\<close>

definition identify_player ::
  "environment \<Rightarrow> bool \<Rightarrow> (string, saved_player) dict \<Rightarrow> game \<Rightarrow> identity_state \<Rightarrow> player
     \<Rightarrow> identity_state" where
  "identify_player env incremental_mode saved_player_state g st p =
     (let player_name = name p
      in if is_dedicated_server player_name then st
         else
           let st1 = st\<lparr>id_all_player_names :=
                          (if player_name \<in> set (id_all_player_names st) then id_all_player_names st
                           else id_all_player_names st @ [player_name])\<rparr>
           in if dict_in player_name (id_player_to_id st1) then st1
              else
                let user_id = resolve_player_to_discord player_name (identity_for_game env g)
                                (mac_to_discord env) (profile_lookup env) (id_rankstats st1);
                    temp_id = str_int (\<bar>py_hash env player_name\<bar> mod 10 ^ 18);
                    unmatched = st1\<lparr>id_player_to_id := AList.update player_name temp_id (id_player_to_id st1),
                                     id_rankstats := AList.update temp_id (temp_entry player_name)
                                                       (id_rankstats st1)\<rparr>;
                    st2 = (case user_id of
                             Some u \<Rightarrow>
                               if u \<noteq> []
                               then st1\<lparr>id_player_to_id := AList.update player_name u (id_player_to_id st1)\<rparr>
                               else unmatched
                           | None \<Rightarrow> unmatched)
                in st2\<lparr>id_tracking := init_player_tracking incremental_mode saved_player_state
                                        user_id player_name (id_tracking st2)\<rparr>)"

definition identify_players ::
  "environment \<Rightarrow> bool \<Rightarrow> (string, saved_player) dict \<Rightarrow> game list \<Rightarrow> identity_state
     \<Rightarrow> identity_state" where
  "identify_players env incremental_mode saved_player_state all_games st0 =
     foldl (\<lambda>st g. foldl (identify_player env incremental_mode saved_player_state g) st (players g))
       st0 all_games"


subsection \<open>Rank dicts and restored state\<close>

text \<open>
  \<^verbatim>\<open>
  for name in all_player_names:
      player_playlist_rank[name] = {}
      player_playlist_highest_rank[name] = {}
      if incremental_mode and name in player_to_id:
          user_id = player_to_id[name]
          if user_id in saved_player_state:
              for pl, pl_state in saved_player_state[user_id].get('playlists', {}).items():
                  player_playlist_rank[name][pl] = pl_state.get('rank', 1)
                  player_playlist_highest_rank[name][pl] = pl_state.get('highest_rank', 1)
  \<close>
\<close>

definition init_rank_tracking ::
  "bool \<Rightarrow> (string, saved_player) dict \<Rightarrow> (string, string) dict \<Rightarrow> string list \<Rightarrow> tracking
     \<Rightarrow> tracking" where
  "init_rank_tracking incremental_mode saved_player_state player_to_id names t0 =
     foldl (\<lambda>t name.
              let saved_playlists =
                    (if incremental_mode then
                       (case map_of player_to_id name of
                          Some user_id \<Rightarrow>
                            (case map_of saved_player_state user_id of
                               Some saved \<Rightarrow> sp_playlists saved | None \<Rightarrow> [])
                        | None \<Rightarrow> [])
                     else [])
              in t\<lparr>player_playlist_rank := AList.update name
                      (foldl (\<lambda>d (pl, st). AList.update pl (pl_rank st) d) [] saved_playlists)
                      (player_playlist_rank t),
                   player_playlist_highest_rank := AList.update name
                      (foldl (\<lambda>d (pl, st). AList.update pl (pl_highest_rank st) d) [] saved_playlists)
                      (player_playlist_highest_rank t)\<rparr>)
       t0 names"

text \<open>
  \<^verbatim>\<open>
  if incremental_mode and saved_player_state:
      for user_id, state in saved_player_state.items():
          for player_name, pid in player_to_id.items():
              if pid == user_id:
                  for playlist, pl_state in state.get('playlists', {}).items():
                      player_playlist_xp[player_name][playlist] = pl_state.get('xp', 0)
                      player_playlist_rank[player_name][playlist] = pl_state.get('rank', 1)
                      player_playlist_highest_rank[player_name][playlist] = pl_state.get('highest_rank', 1)
                      player_playlist_wins[player_name][playlist] = pl_state.get('wins', 0)
                      player_playlist_losses[player_name][playlist] = pl_state.get('losses', 0)
                      player_playlist_games[player_name][playlist] = pl_state.get('games', 0)
                  if player_name in player_game_stats:
                      player_game_stats[player_name]['kills'] = state.get('kills', 0)
                      ... deaths, assists, headshots
                      player_game_stats[player_name]['games'] = state.get('total_games', 0)
  \<close>
\<close>

definition restore_playlist :: "string \<Rightarrow> tracking \<Rightarrow> string \<times> pl_state \<Rightarrow> py_error + tracking" where
  "restore_playlist player_name t entry =
     (let (playlist, st) = entry
      in bind_err (set2 (player_playlist_xp t) player_name playlist (pl_xp st)) (\<lambda>xp.
         bind_err (set2 (player_playlist_rank t) player_name playlist (pl_rank st)) (\<lambda>rank.
         bind_err (set2 (player_playlist_highest_rank t) player_name playlist (pl_highest_rank st))
           (\<lambda>highest.
         bind_err (set2 (player_playlist_wins t) player_name playlist (pl_wins st)) (\<lambda>wins.
         bind_err (set2 (player_playlist_losses t) player_name playlist (pl_losses st)) (\<lambda>losses.
         bind_err (set2 (player_playlist_games t) player_name playlist (pl_games st)) (\<lambda>games.
           Inr (t\<lparr>player_playlist_xp := xp, player_playlist_rank := rank,
                   player_playlist_highest_rank := highest, player_playlist_wins := wins,
                   player_playlist_losses := losses, player_playlist_games := games\<rparr>))))))))"

definition restore_player :: "saved_player \<Rightarrow> tracking \<Rightarrow> string \<Rightarrow> py_error + tracking" where
  "restore_player state t player_name =
     bind_err (fold_err (restore_playlist player_name) t (sp_playlists state)) (\<lambda>t1.
       Inr (if dict_in player_name (player_game_stats t1)
            then t1\<lparr>player_game_stats := AList.update player_name
                       \<lparr>gs_kills = sp_kills state, gs_deaths = sp_deaths state,
                        gs_assists = sp_assists state, gs_games = sp_total_games state,
                        gs_headshots = sp_headshots state\<rparr> (player_game_stats t1)\<rparr>
            else t1))"

definition restore_tracking ::
  "bool \<Rightarrow> (string, saved_player) dict \<Rightarrow> (string, string) dict \<Rightarrow> tracking \<Rightarrow> py_error + tracking" where
  "restore_tracking incremental_mode saved_player_state player_to_id t0 =
     (if incremental_mode \<and> saved_player_state \<noteq> [] then
        fold_err (\<lambda>t (user_id, state).
                    fold_err (\<lambda>t' (player_name, pid).
                                if pid = user_id then restore_player state t' player_name else Inr t')
                      t player_to_id)
          t0 saved_player_state
      else Inr t0)"

subsection \<open>Steps 3a and 3b\<close>

text \<open>
  \<^verbatim>\<open>
  for game_num, game in enumerate(games_to_process_for_stats, 1):
      for player in game['players']:
          player_name = player['name']
          if is_dedicated_server(player_name):
              continue
          if player_name not in player_game_stats:
              continue
          player_game_stats[player_name]['kills'] += player.get('kills', 0)
          ... deaths, assists, headshots
          player_game_stats[player_name]['games'] += 1
  \<close>
\<close>

definition count_player_stats :: "tracking \<Rightarrow> player \<Rightarrow> tracking" where
  "count_player_stats t p =
     (if is_dedicated_server (name p) then t
      else case map_of (player_game_stats t) (name p) of
             None \<Rightarrow> t
           | Some st \<Rightarrow>
               t\<lparr>player_game_stats := AList.update (name p)
                    \<lparr>gs_kills = gs_kills st + kills p, gs_deaths = gs_deaths st + deaths p,
                     gs_assists = gs_assists st + assists p, gs_games = gs_games st + 1,
                     gs_headshots = gs_headshots st + head_shots p\<rparr> (player_game_stats t)\<rparr>)"

definition process_stats :: "game list \<Rightarrow> tracking \<Rightarrow> tracking" where
  "process_stats games_to_process_for_stats t0 =
     foldl (\<lambda>t g. foldl count_player_stats t (players g)) t0 games_to_process_for_stats"

text \<open>
  An entry appended to \<^verbatim>\<open>rankhistory[user_id]['history']\<close>; its \<^verbatim>\<open>timestamp\<close>,
  \<^verbatim>\<open>map\<close> and \<^verbatim>\<open>gametype\<close> are copies of game details and are left out.
\<close>

record history_entry =
  he_source_file :: string
  he_playlist :: string
  he_event :: ledger_event

type_synonym rankhistory = "(string, string \<times> history_entry list) dict"

definition add_history ::
  "rankstats \<Rightarrow> string \<Rightarrow> string \<Rightarrow> history_entry \<Rightarrow> rankhistory \<Rightarrow> rankhistory" where
  "add_history rankstats user_id player_name entry rankhistory =
     (let rh = (if \<not> dict_in user_id rankhistory then
                  let discord_name =
                        (case map_of rankstats user_id of
                           Some data \<Rightarrow> (case rs_discord_name data of Some d \<Rightarrow> d | None \<Rightarrow> player_name)
                         | None \<Rightarrow> player_name)
                  in AList.update user_id (discord_name, []) rankhistory
                else rankhistory);
          (dn, history) = dict_get rh user_id ([], [])
      in AList.update user_id (dn, history @ [entry]) rh)"

text \<open>
  One player of one ranked game in step 3b: the two \<^verbatim>\<open>continue\<close> tests, the ledger
  update, and the history entry when \<^verbatim>\<open>user_id\<close> is set.
\<close>

definition process_ranked_player ::
  "xp_config \<Rightarrow> rankstats \<Rightarrow> (string, string) dict \<Rightarrow> game \<Rightarrow> string list \<Rightarrow> string list \<Rightarrow> string
     \<Rightarrow> tracking \<times> rankhistory \<Rightarrow> player \<Rightarrow> py_error + (tracking \<times> rankhistory)" where
  "process_ranked_player cfg rankstats player_to_id g winners losers pl acc p =
     (let (t, rankhistory) = acc;
          player_name = name p
      in if is_dedicated_server player_name then Inr (t, rankhistory)
         else
           let user_id = map_of player_to_id player_name
           in if \<not> dict_in player_name (player_playlist_xp t) then Inr (t, rankhistory)
              else
                bind_err (ledger_update cfg winners losers pl player_name t) (\<lambda>(t', ev).
                  Inr (t',
                       case user_id of
                         Some u \<Rightarrow>
                           if u \<noteq> []
                           then add_history rankstats u player_name
                                  \<lparr>he_source_file = source_file g, he_playlist = pl, he_event = ev\<rparr>
                                  rankhistory
                           else rankhistory
                       | None \<Rightarrow> rankhistory)))"

text \<open>
  \<^verbatim>\<open>
  for game_num, game in enumerate(games_to_process_for_xp, 1):
      winners, losers = determine_winners_losers(game)
      playlist = game.get('playlist')
      if not playlist:
          continue  # Skip untagged games for ranking
      for player in game['players']:
          ...
  \<close>
\<close>

definition process_ranked_game ::
  "xp_config \<Rightarrow> rankstats \<Rightarrow> (string, string) dict \<Rightarrow> tracking \<times> rankhistory \<Rightarrow> game
     \<Rightarrow> py_error + (tracking \<times> rankhistory)" where
  "process_ranked_game cfg rankstats player_to_id acc g =
     (let (winners, losers) = determine_winners_losers g
      in case playlist g of
           None \<Rightarrow> Inr acc
         | Some pl \<Rightarrow>
             if pl = [] then Inr acc
             else fold_err (process_ranked_player cfg rankstats player_to_id g winners losers pl)
                    acc (players g))"

definition process_ranked_games ::
  "xp_config \<Rightarrow> rankstats \<Rightarrow> (string, string) dict \<Rightarrow> game list \<Rightarrow> tracking \<times> rankhistory
     \<Rightarrow> py_error + (tracking \<times> rankhistory)" where
  "process_ranked_games cfg rankstats player_to_id games_to_process_for_xp acc =
     fold_err (process_ranked_game cfg rankstats player_to_id) acc games_to_process_for_xp"


subsection \<open>Step 4: consolidation into rankstats\<close>

text \<open>
  \<^verbatim>\<open>
  user_id_to_names = {}
  for player_name in all_player_names:
      user_id = player_to_id[player_name]
      if user_id not in user_id_to_names:
          user_id_to_names[user_id] = []
      user_id_to_names[user_id].append(player_name)
  \<close>
\<close>

definition group_names ::
  "(string, string) dict \<Rightarrow> string list \<Rightarrow> py_error + (string, string list) dict" where
  "group_names player_to_id names =
     fold_err (\<lambda>d player_name.
                 bind_err (subscript player_to_id player_name) (\<lambda>user_id.
                   Inr (AList.update user_id (dict_get d user_id [] @ [player_name]) d)))
       [] names"

definition sum_values :: "(string, int) dict \<Rightarrow> int" where
  \<comment> \<open>\<^verbatim>\<open>sum(d.values())\<close>\<close>
  "sum_values d = sum_list (map snd d)"

definition sum_stats :: "tracking \<Rightarrow> string list \<Rightarrow> py_error + game_stats" where
  \<comment> \<open>the totals over \<^verbatim>\<open>player_game_stats[player_name]\<close> for the names of one user\<close>
  "sum_stats t player_names =
     fold_err (\<lambda>acc player_name.
                 bind_err (subscript (player_game_stats t) player_name) (\<lambda>stats.
                   Inr \<lparr>gs_kills = gs_kills acc + gs_kills stats,
                        gs_deaths = gs_deaths acc + gs_deaths stats,
                        gs_assists = gs_assists acc + gs_assists stats,
                        gs_games = gs_games acc + gs_games stats,
                        gs_headshots = gs_headshots acc + gs_headshots stats\<rparr>))
       \<lparr>gs_kills = 0, gs_deaths = 0, gs_assists = 0, gs_games = 0, gs_headshots = 0\<rparr> player_names"

definition sum_wins_losses :: "tracking \<Rightarrow> string list \<Rightarrow> py_error + (int \<times> int)" where
  "sum_wins_losses t player_names =
     fold_err (\<lambda>(total_wins, total_losses) player_name.
                 bind_err (subscript (player_playlist_wins t) player_name) (\<lambda>w.
                 bind_err (subscript (player_playlist_losses t) player_name) (\<lambda>l.
                   Inr (total_wins + sum_values w, total_losses + sum_values l))))
       (0, 0) player_names"

definition collect_playlists :: "tracking \<Rightarrow> string list \<Rightarrow> py_error + string list" where
  \<comment> \<open>the set \<^verbatim>\<open>all_playlists\<close>, as the list of its elements in the order added\<close>
  "collect_playlists t player_names =
     fold_err (\<lambda>acc player_name.
                 bind_err (subscript (player_playlist_xp t) player_name) (\<lambda>m.
                   Inr (foldl (\<lambda>a k. if k \<in> set a then a else a @ [k]) acc (map fst m))))
       [] player_names"

definition sum_playlist :: "int dict2 \<Rightarrow> string list \<Rightarrow> string \<Rightarrow> py_error + int" where
  \<comment> \<open>the sum of \<^verbatim>\<open>d[player_name].get(playlist, 0)\<close> over the names\<close>
  "sum_playlist d player_names pl =
     fold_err (\<lambda>acc player_name.
                 bind_err (subscript d player_name) (\<lambda>m. Inr (acc + dict_get m pl 0)))
       0 player_names"

definition max_playlist :: "int dict2 \<Rightarrow> string list \<Rightarrow> string \<Rightarrow> py_error + int" where
  \<comment> \<open>\<^verbatim>\<open>playlist_highest = max(playlist_highest, d[player_name].get(playlist, 1))\<close> from 1\<close>
  "max_playlist d player_names pl =
     fold_err (\<lambda>acc player_name.
                 bind_err (subscript d player_name) (\<lambda>m. Inr (max acc (dict_get m pl 1))))
       1 player_names"

record consolidation =
  playlists_data :: "(string, pl_state) dict"
  flat_ranks :: "(string, int) dict"
  overall_highest_rank :: int
  primary_playlist :: "string option"
  primary_xp :: int

text \<open>
  The body of \<^verbatim>\<open>for playlist in all_playlists\<close>:
  \<^verbatim>\<open>
  for player_name in player_names:
      playlist_xp += player_playlist_xp[player_name].get(playlist, 0)
      playlist_highest = max(playlist_highest, player_playlist_highest_rank[player_name].get(playlist, 1))
      playlist_wins += player_playlist_wins[player_name].get(playlist, 0)
      playlist_losses += player_playlist_losses[player_name].get(playlist, 0)
      playlist_games += player_playlist_games[player_name].get(playlist, 0)
  playlist_rank = calculate_rank(playlist_xp, rank_thresholds)
  playlists_data[playlist] = {'xp': playlist_xp, 'rank': playlist_rank,
      'highest_rank': playlist_highest, 'wins': playlist_wins, 'losses': playlist_losses,
      'games': playlist_games}
  rankstats[user_id][playlist] = playlist_rank
  if playlist_highest > overall_highest_rank:
      overall_highest_rank = playlist_highest
  if playlist_xp > primary_xp:
      primary_xp = playlist_xp
      primary_playlist = playlist
  \<close>
\<close>

definition consolidate_playlist ::
  "xp_config \<Rightarrow> tracking \<Rightarrow> string list \<Rightarrow> consolidation \<Rightarrow> string \<Rightarrow> py_error + consolidation" where
  "consolidate_playlist cfg t player_names c pl =
     bind_err (sum_playlist (player_playlist_xp t) player_names pl) (\<lambda>playlist_xp.
     bind_err (max_playlist (player_playlist_highest_rank t) player_names pl) (\<lambda>playlist_highest.
     bind_err (sum_playlist (player_playlist_wins t) player_names pl) (\<lambda>playlist_wins.
     bind_err (sum_playlist (player_playlist_losses t) player_names pl) (\<lambda>playlist_losses.
     bind_err (sum_playlist (player_playlist_games t) player_names pl) (\<lambda>playlist_games.
       let playlist_rank = calculate_rank playlist_xp (rank_thresholds cfg)
       in Inr \<lparr>playlists_data = AList.update pl
                  \<lparr>pl_xp = playlist_xp, pl_rank = playlist_rank,
                   pl_highest_rank = playlist_highest, pl_wins = playlist_wins,
                   pl_losses = playlist_losses, pl_games = playlist_games\<rparr> (playlists_data c),
               flat_ranks = AList.update pl playlist_rank (flat_ranks c),
               overall_highest_rank = (if playlist_highest > overall_highest_rank c
                                       then playlist_highest else overall_highest_rank c),
               primary_playlist = (if playlist_xp > primary_xp c then Some pl
                                   else primary_playlist c),
               primary_xp = (if playlist_xp > primary_xp c then playlist_xp
                             else primary_xp c)\<rparr>)))))"

text \<open>
  The body of \<^verbatim>\<open>for user_id, player_names in user_id_to_names.items()\<close>. Every
  assignment \<^verbatim>\<open>rankstats[user_id][...] = ...\<close> needs \<^verbatim>\<open>user_id\<close> in \<^verbatim>\<open>rankstats\<close>.
\<close>

definition consolidate_user ::
  "xp_config \<Rightarrow> tracking \<Rightarrow> rankstats \<Rightarrow> string \<times> string list \<Rightarrow> py_error + rankstats" where
  "consolidate_user cfg t rankstats entry =
     (let (user_id, player_names) = entry
      in bind_err (sum_stats t player_names) (\<lambda>totals.
         bind_err (subscript rankstats user_id) (\<lambda>e.
         bind_err (sum_wins_losses t player_names) (\<lambda>(total_wins, total_losses).
         bind_err (collect_playlists t player_names) (\<lambda>all_playlists.
         bind_err (fold_err (consolidate_playlist cfg t player_names)
                     \<lparr>playlists_data = [], flat_ranks = rs_playlist_rank e,
                      overall_highest_rank = 1, primary_playlist = None, primary_xp = 0\<rparr>
                     all_playlists) (\<lambda>c.
           let has_primary = (case primary_playlist c of Some pl \<Rightarrow> pl \<noteq> [] | None \<Rightarrow> False)
           in Inr (AList.update user_id
                     (e\<lparr>rs_total_games := gs_games totals, rs_kills := gs_kills totals,
                        rs_deaths := gs_deaths totals, rs_assists := gs_assists totals,
                        rs_headshots := gs_headshots totals,
                        rs_wins := total_wins, rs_losses := total_losses,
                        rs_playlist_rank := flat_ranks c,
                        rs_playlists := playlists_data c,
                        rs_xp := (if has_primary then primary_xp c else 0),
                        rs_rank := (if has_primary
                                    then calculate_rank (primary_xp c) (rank_thresholds cfg) else 1),
                        rs_highest_rank := overall_highest_rank c\<rparr>)
                     rankstats)))))))"

definition step4 ::
  "xp_config \<Rightarrow> tracking \<Rightarrow> (string, string) dict \<Rightarrow> string list \<Rightarrow> rankstats
     \<Rightarrow> py_error + rankstats" where
  "step4 cfg t player_to_id names rankstats =
     bind_err (group_names player_to_id names) (\<lambda>user_id_to_names.
       fold_err (consolidate_user cfg t) rankstats user_id_to_names)"

subsection \<open>The new checkpoint\<close>

text \<open>
  \<^verbatim>\<open>
  new_player_state = {}
  for user_id, data in rankstats.items():
      if data.get('total_games', 0) > 0 or data.get('wins', 0) > 0 or data.get('losses', 0) > 0:
          new_player_state[user_id] = {'xp': data.get('xp', 0), ..., 'playlists': data.get('playlists', {})}
  new_processed_state = {
      "games": {game['source_file']: game.get('playlist') for game in all_games},
      "manual_playlists_hash": get_manual_playlists_hash(manual_playlists),
      "player_state": new_player_state,
      "player_name_to_id": player_to_id
  }
  \<close>
\<close>

definition saved_of_entry :: "rankstats_entry \<Rightarrow> saved_player" where
  "saved_of_entry data =
     \<lparr>sp_xp = rs_xp data, sp_rank = rs_rank data, sp_wins = rs_wins data,
      sp_losses = rs_losses data, sp_total_games = rs_total_games data,
      sp_kills = rs_kills data, sp_deaths = rs_deaths data, sp_assists = rs_assists data,
      sp_headshots = rs_headshots data, sp_highest_rank = rs_highest_rank data,
      sp_playlists = rs_playlists data\<rparr>"

definition new_processed_state ::
  "game list \<Rightarrow> rankstats \<Rightarrow> (string, string) dict \<Rightarrow> processed_state" where
  "new_processed_state all_games rankstats player_to_id =
     \<lparr>ps_games = foldl (\<lambda>d g. AList.update (source_file g) (playlist g) d) [] all_games,
      ps_player_state =
        foldl (\<lambda>d (user_id, data).
                 if rs_total_games data > 0 \<or> rs_wins data > 0 \<or> rs_losses data > 0
                 then AList.update user_id (saved_of_entry data) d else d) [] rankstats,
      ps_player_name_to_id = player_to_id\<rparr>"

subsection \<open>main\<close>

record run_result =
  out_rankstats :: rankstats
  out_rankhistory :: rankhistory
  out_processed_state :: processed_state

text \<open>
  \<^verbatim>\<open>main\<close> from the change check to the new checkpoint. The inputs are the loaded
  configuration, the environment of the run, the loaded \<^verbatim>\<open>rankstats\<close>, the manual
  playlists, the saved checkpoint, the loaded rank history and the classified games. The
  result is \<open>None\<close> when there is nothing to process. The files written between step 4
  and the checkpoint (matches, series, emblems) read the state and do not change what
  the checkpoint stores.
\<close>

definition empty_tracking :: tracking where
  "empty_tracking =
     \<lparr>player_game_stats = [], player_playlist_xp = [], player_playlist_wins = [],
      player_playlist_losses = [], player_playlist_games = [], player_playlist_rank = [],
      player_playlist_highest_rank = []\<rparr>"

definition main ::
  "xp_config \<Rightarrow> environment \<Rightarrow> rankstats \<Rightarrow> (string, string) dict \<Rightarrow> processed_state
     \<Rightarrow> rankhistory \<Rightarrow> game list \<Rightarrow> py_error + run_result option" where
  "main cfg env rankstats0 manual_playlists processed_state saved_rankhistory all_games =
     (let stats_files = sort (map source_file all_games);
          (needs_full_rebuild, new_files, changed_playlists) =
             check_for_changes stats_files manual_playlists processed_state
      in if new_files = [] \<and> changed_playlists = [] then Inr None
         else
           let (incremental_mode, saved_player_state) =
                  processing_mode needs_full_rebuild new_files processed_state;
               rankstats1 = step1 incremental_mode saved_player_state rankstats0;
               ids = identify_players env incremental_mode saved_player_state all_games
                       \<lparr>id_all_player_names = [],
                        id_player_to_id = (if incremental_mode
                                           then ps_player_name_to_id processed_state else []),
                        id_rankstats = rankstats1, id_tracking = empty_tracking\<rparr>;
               names = id_all_player_names ids;
               player_to_id = id_player_to_id ids;
               t1 = init_rank_tracking incremental_mode saved_player_state player_to_id names
                      (id_tracking ids)
           in bind_err (restore_tracking incremental_mode saved_player_state player_to_id t1) (\<lambda>t2.
                let rankhistory = (if incremental_mode then saved_rankhistory else []);
                    games_to_process_for_stats =
                      (if incremental_mode
                       then filter (\<lambda>g. source_file g \<in> set new_files) all_games else all_games);
                    t3 = process_stats games_to_process_for_stats t2;
                    games_to_process_for_xp =
                      (if incremental_mode
                       then filter (\<lambda>g. source_file g \<in> set new_files) (ranked_games all_games)
                       else ranked_games all_games)
                in bind_err (process_ranked_games cfg (id_rankstats ids) player_to_id
                               games_to_process_for_xp (t3, rankhistory)) (\<lambda>(t4, rankhistory').
                   bind_err (step4 cfg t4 player_to_id names (id_rankstats ids)) (\<lambda>rankstats'.
                     Inr (Some \<lparr>out_rankstats = rankstats', out_rankhistory = rankhistory',
                                out_processed_state =
                                  new_processed_state all_games rankstats' player_to_id\<rparr>)))))"


section \<open>Example inputs\<close>

definition example_player :: "string \<Rightarrow> string \<Rightarrow> int \<Rightarrow> player" where
  "example_player n t s =
     \<lparr>name = n, team = t, score_numeric = s, kills = 0, deaths = 0, assists = 0, head_shots = 0\<rparr>"

definition example_game :: "string \<Rightarrow> string \<Rightarrow> player list \<Rightarrow> game" where
  "example_game f pl ps =
     \<lparr>details = Some \<lparr>Game_Type = ''Slayer'', Variant_Name = ''MLG TS'', Map_Name = ''Lockout'',
                       Start_Time = f, End_Time = f\<rparr>,
      players = ps, source_file = f, playlist = Some pl\<rparr>"

text \<open>
  Two Head to Head games between Ann, whom the profile lookup resolves to the id 111, and
  Bob, whom nothing resolves. Both games are tagged in manual\_playlists.json.
\<close>

definition c1_game1 :: game where
  "c1_game1 = example_game ''g1.xlsx'' ''Head to Head''
                [example_player ''Ann'' ''Red'' 10, example_player ''Bob'' ''Blue'' 5]"

definition c1_game2 :: game where
  "c1_game2 = example_game ''g2.xlsx'' ''Head to Head''
                [example_player ''Ann'' ''Red'' 3, example_player ''Bob'' ''Blue'' 7]"

definition c1_config :: xp_config where
  "c1_config = \<lparr>rank_thresholds = [(''1'', (0, 88)), (''2'', (89, 188))], game_win = 100,
                game_loss = - 100, loss_factors = [], win_factors = []\<rparr>"

definition c1_env :: "int \<Rightarrow> environment" where
  \<comment> \<open>\<open>h\<close> is the value of \<^verbatim>\<open>hash\<close> in the process of the run\<close>
  "c1_env h = \<lparr>identity_for_game = (\<lambda>g. []), mac_to_discord = [],
               profile_lookup = [(''ann'', ''111'')], py_hash = (\<lambda>s. h)\<rparr>"

definition c1_rankstats :: rankstats where
  "c1_rankstats = [(''111'', temp_entry ''Ann#1'')]"

definition c1_manual :: "(string, string) dict" where
  "c1_manual = [(''g1.xlsx'', ''Head to Head''), (''g2.xlsx'', ''Head to Head'')]"

definition no_checkpoint :: processed_state where
  \<comment> \<open>what \<^verbatim>\<open>load_processed_state\<close> returns without a file\<close>
  "no_checkpoint = \<lparr>ps_games = [], ps_player_state = [], ps_player_name_to_id = []\<rparr>"

definition c1_h2h :: "int \<Rightarrow> int \<Rightarrow> int \<Rightarrow> int \<Rightarrow> int \<Rightarrow> int \<Rightarrow> (string, pl_state) dict" where
  "c1_h2h x r h w l g =
     [(''Head to Head'', \<lparr>pl_xp = x, pl_rank = r, pl_highest_rank = h, pl_wins = w,
                           pl_losses = l, pl_games = g\<rparr>)]"

definition c1_checkpoint :: processed_state where
  "c1_checkpoint =
     \<lparr>ps_games = [(''g1.xlsx'', Some ''Head to Head'')],
      ps_player_state =
        [(''111'', \<lparr>sp_xp = 100, sp_rank = 2, sp_wins = 1, sp_losses = 0, sp_total_games = 1,
                    sp_kills = 0, sp_deaths = 0, sp_assists = 0, sp_headshots = 0,
                    sp_highest_rank = 2, sp_playlists = c1_h2h 100 2 2 1 0 1\<rparr>),
         (''7'', \<lparr>sp_xp = 0, sp_rank = 1, sp_wins = 0, sp_losses = 1, sp_total_games = 1,
                  sp_kills = 0, sp_deaths = 0, sp_assists = 0, sp_headshots = 0,
                  sp_highest_rank = 1, sp_playlists = c1_h2h 0 1 1 0 1 1\<rparr>)],
      ps_player_name_to_id = [(''Ann'', ''111''), (''Bob'', ''7'')]\<rparr>"

definition c1_rankhistory :: rankhistory where
  "c1_rankhistory =
     [(''111'', ''Ann#1'',
       [\<lparr>he_source_file = ''g1.xlsx'', he_playlist = ''Head to Head'',
         he_event = \<lparr>ev_xp_change = 100, ev_xp_total = 100, ev_rank_before = 1,
                     ev_rank_after = 2, ev_result = ''win''\<rparr>\<rparr>]),
      (''7'', ''Bob'',
       [\<lparr>he_source_file = ''g1.xlsx'', he_playlist = ''Head to Head'',
         he_event = \<lparr>ev_xp_change = - 100, ev_xp_total = 0, ev_rank_before = 1,
                     ev_rank_after = 1, ev_result = ''loss''\<rparr>\<rparr>])]"

definition checkpoint_of ::
  "py_error + run_result option \<Rightarrow> py_error + (processed_state \<times> rankhistory) option" where
  \<comment> \<open>what a run leaves in processed\_state.json and rankhistory.json\<close>
  "checkpoint_of r =
     map_sum id (map_option (\<lambda>r. (out_processed_state r, out_rankhistory r))) r"

definition playlist_table ::
  "py_error + run_result option \<Rightarrow> py_error + (string, (string, pl_state) dict) dict option" where
  \<comment> \<open>the per-player, per-playlist state of a run's final \<^verbatim>\<open>rankstats\<close>\<close>
  "playlist_table r =
     map_sum id (map_option (\<lambda>r. map (\<lambda>(u, e). (u, rs_playlists e)) (out_rankstats r))) r"

section \<open>Series continuity: the spec's words and example games\<close>

text \<open>
  Two names are equal up to ASCII letter case when they have the same length and agree
  position by position, or differ there only as a capital and its small letter. Two
  rosters are equal as sets up to case when each name of one has such a partner in the
  other.
\<close>

definition equal_ignoring_ascii_case :: "string \<Rightarrow> string \<Rightarrow> bool" where
  "equal_ignoring_ascii_case a b =
     list_all2 (\<lambda>c d. c = d \<or> (c, d) \<in> set ascii_case_pairs \<or> (d, c) \<in> set ascii_case_pairs) a b"

definition rosters_equal_ignoring_case :: "string list \<Rightarrow> string list \<Rightarrow> bool" where
  "rosters_equal_ignoring_case A B =
     ((\<forall>a \<in> set A. \<exists>b \<in> set B. equal_ignoring_ascii_case a b) \<and>
      (\<forall>b \<in> set B. \<exists>a \<in> set A. equal_ignoring_ascii_case a b))"

text \<open>The entry that \<^verbatim>\<open>detect_series\<close> appends to a series for a game.\<close>

definition appended_entry :: "game \<Rightarrow> series_game" where
  "appended_entry g = series_game_entry g (game_winner_of g (fst (determine_winners_losers g)))"

definition c4_game :: "string \<Rightarrow> string \<Rightarrow> string \<Rightarrow> game" where
  "c4_game f red blue = example_game f ''Head to Head''
                [example_player red ''Red'' 10, example_player blue ''Blue'' 5]"

definition no_series :: detect_state where
  "no_series = \<lparr>series_list = [], current_series = None, series_counter = 0\<rparr>"

section \<open>Properties\<close>

subsection \<open>Factor table\<close>

lemma dict_get_cases:
  "dict_get d k dflt = dflt \<and> map_of d k = None \<or>
   (\<exists>v. dict_get d k dflt = v \<and> (k, v) \<in> set d)"
  by (auto simp: dict_get_def dest: map_of_SomeD split: option.splits)

text \<open>
  C3 (as amended). Both factor functions are total. When every entry of the two tables
  lies in \<open>(0, 1]\<close>, so does every result. The loss factor is exactly 1 for a rank of
  30 or more and for a rank without an entry. The win factor is exactly 1 for a rank of
  40 or less; above 40 a rank without an entry gets the factor 0.5, not 1.
\<close>

theorem factor_table_contract:
  "(\<forall>(k, f) \<in> set wins_tab. 0 < f \<and> f \<le> 1) \<Longrightarrow>
   (\<forall>(k, f) \<in> set loss_tab. 0 < f \<and> f \<le> 1) \<Longrightarrow>
     (0 < get_win_factor rank wins_tab \<and> get_win_factor rank wins_tab \<le> 1) \<and>
     (0 < get_loss_factor rank loss_tab \<and> get_loss_factor rank loss_tab \<le> 1) \<and>
     (rank \<le> 40 \<longrightarrow> get_win_factor rank wins_tab = 1) \<and>
     (40 < rank \<and> map_of wins_tab (str_int rank) = None
        \<longrightarrow> get_win_factor rank wins_tab = 1 / 2) \<and>
     (30 \<le> rank \<or> map_of loss_tab (str_int rank) = None
        \<longrightarrow> get_loss_factor rank loss_tab = 1)"
proof -
  assume w: "\<forall>(k, f) \<in> set wins_tab. 0 < f \<and> f \<le> 1"
    and l: "\<forall>(k, f) \<in> set loss_tab. 0 < f \<and> f \<le> 1"
  have dw: "0 < dict_get wins_tab (str_int rank) (1 / 2) \<and>
            dict_get wins_tab (str_int rank) (1 / 2) \<le> 1"
    using w dict_get_cases [of wins_tab "str_int rank" "1 / 2"] by auto
  have dl: "0 < dict_get loss_tab (str_int rank) 1 \<and>
            dict_get loss_tab (str_int rank) 1 \<le> 1"
    using l dict_get_cases [of loss_tab "str_int rank" 1] by auto
  show ?thesis
    using dw dl by (auto simp: get_win_factor_def get_loss_factor_def dict_get_def)
qed

theorem factor_table_contract_witness:
  "get_win_factor 41 [(''45'', 3 / 4)] = 1 / 2 \<and>
   get_loss_factor 41 [(''5'', 1 / 2)] = 1 \<and>
   get_win_factor 5 [(''45'', 3 / 4)] = 1 \<and>
   0 < get_loss_factor 5 [(''5'', 1 / 2)] \<and> get_loss_factor 5 [(''5'', 1 / 2)] \<le> 1 \<and>
   0 < get_win_factor 45 [(''45'', 3 / 4)] \<and> get_win_factor 45 [(''45'', 3 / 4)] \<le> 1"
proof -
  have s: "str_int 41 = ''41''" "str_int 5 = ''5''" "str_int 45 = ''45''"
    by (simp_all add: str_int_def digits10.simps digit_char_def)
  have hw: "\<forall>(k, f) \<in> set [(''45'', 3 / 4 :: rat)]. 0 < f \<and> f \<le> 1" by simp
  have hl: "\<forall>(k, f) \<in> set [(''5'', 1 / 2 :: rat)]. 0 < f \<and> f \<le> 1" by simp
  show ?thesis
    using factor_table_contract [OF hw hl, of 41] factor_table_contract [OF hw hl, of 5]
      factor_table_contract [OF hw hl, of 45]
    by (simp add: s)
qed

text \<open>
  C3 as stated fails: rank 41 has no entry in the empty win table, and its win factor
  is 0.5.
\<close>

theorem win_factor_missing_entry_counterexample:
  "\<not> (map_of ([] :: factors) (str_int 41) = None \<longrightarrow> get_win_factor 41 [] = 1)"
  by (simp add: get_win_factor_def dict_get_def)

subsection \<open>Rank table\<close>

text \<open>
  C7. With the default table, whose level 50 is \<open>[10239, 1000000000]\<close>,
  \<open>calculate_rank\<close> gives level 50 at 1000000000 xp and falls back to level 1 at
  1000000001 xp, so it is not monotonic; the bot's copy of the function returns level 50
  there.
\<close>

theorem calculate_rank_above_top_bound:
  "calculate_rank 1000000000 default_rank_thresholds = 50 \<and>
   calculate_rank 1000000001 default_rank_thresholds = 1 \<and>
   statsranks_calculate_rank 1000000001 default_levels = Inr 50"
  by code_simp

subsection \<open>Evaluation of concrete runs\<close>

text \<open>
  Concrete runs are evaluated by rewriting with the definitions, the argument of a bind,
  a \<open>let\<close> or a case first.
\<close>

lemma bind_err_weak_cong: "m = m' \<Longrightarrow> bind_err m f = bind_err m' f"
  by simp

lemma bind_err_Inr: "bind_err (Inr v) f = f v"
  by (simp add: bind_err_def)

lemma bind_err_Inl: "bind_err (Inl e) f = Inl e"
  by (simp add: bind_err_def)

lemma calculate_rank_from_numeral:
  "calculate_rank_from (numeral k) xp rt =
     (case map_of rt (str_int (numeral k)) of
        Some (min_xp, max_xp) \<Rightarrow>
          if min_xp \<le> xp \<and> xp \<le> max_xp then numeral k
          else calculate_rank_from (pred_numeral k) xp rt
      | None \<Rightarrow> calculate_rank_from (pred_numeral k) xp rt)"
proof -
  have n: "int (Suc (pred_numeral k)) = numeral k"
    by (metis numeral_eq_Suc of_nat_numeral)
  have "calculate_rank_from (numeral k) xp rt = calculate_rank_from (Suc (pred_numeral k)) xp rt"
    by (simp only: numeral_eq_Suc)
  then show ?thesis
    by (simp only: calculate_rank_from.simps n)
qed

lemma calculate_rank_from_1: "calculate_rank_from 1 xp rt = 1"
  by (simp split: option.splits)

lemmas ev_strings = str_int_def digits10.simps digit_char_def lower_def lower_char_def
  ascii_case_pairs_def strip_def
  is_space_def is_alnum_def str_in_def dict_in_def dict_get_def

lemmas ev_ledger = ledger_update_def update_rank_def init_playlist_tracking_def apply_result_def get2_def set2_def
  add2_def subscript_def get_win_factor_def get_loss_factor_def calculate_rank_def
  calculate_rank_from_numeral calculate_rank_from_1 bind_err_Inr bind_err_Inl Let_def

lemmas ev_main = main_def check_for_changes_def check_file_def processing_mode_def step1_def
  zero_entry_def restore_entry_def identify_players_def identify_player_def
  init_player_tracking_def temp_entry_def resolve_player_to_discord_def is_dedicated_server_def
  UNICODE_NAME_MAPPINGS_def init_rank_tracking_def restore_tracking_def restore_player_def
  restore_playlist_def process_stats_def count_player_stats_def ranked_games_def
  games_of_playlist_def PLAYLIST_MLG_4V4_def PLAYLIST_TEAM_HARDCORE_def PLAYLIST_DOUBLE_TEAM_def
  PLAYLIST_HEAD_TO_HEAD_def process_ranked_games_def process_ranked_game_def
  process_ranked_player_def add_history_def determine_winners_losers_def teams_add_def step4_def
  group_names_def consolidate_user_def consolidate_playlist_def sum_stats_def sum_wins_losses_def
  collect_playlists_def sum_playlist_def max_playlist_def sum_values_def new_processed_state_def
  saved_of_entry_def empty_tracking_def checkpoint_plan_def

lemmas ev_congs = bind_err_weak_cong if_weak_cong option.case_cong_weak sum.case_cong_weak
  let_weak_cong prod.case_cong_weak list.case_cong_weak

lemmas c1_defs = c1_config_def c1_env_def c1_rankstats_def c1_manual_def no_checkpoint_def
  c1_game1_def c1_game2_def example_game_def example_player_def c1_checkpoint_def
  c1_rankhistory_def c1_h2h_def checkpoint_of_def playlist_table_def

lemma c1_xp_changes:
  "py_int (py_float_mul 100 1) = 100" "py_int (py_float_mul (- 100) 1) = - 100"
  by code_simp+

subsection \<open>Full replay and incremental replay\<close>

text \<open>
  C1. The first run, without a checkpoint, replays game 1 and leaves the checkpoint
  \<open>c1_checkpoint\<close>. For the next run, with game 2 added, the plan is incremental:
  only g2.xlsx is new. That run restores \<^verbatim>\<open>player_to_id\<close> from the checkpoint, the
  identity loop then skips every restored name before it creates the per-name dicts, and
  the restore loop raises \<open>KeyError\<close> for Ann: the incremental run returns no state. The
  full replay of both games returns the final table. The temporary id of the unresolved
  Bob is the decimal of \<^verbatim>\<open>hash\<close>, so a full replay in a process with another hash value
  (8 instead of 7) files Bob's state under another id than the checkpoint does.
\<close>

theorem incremental_replay_raises_KeyError:
  "checkpoint_of (main c1_config (c1_env 7) c1_rankstats c1_manual no_checkpoint [] [c1_game1])
     = Inr (Some (c1_checkpoint, c1_rankhistory)) \<and>
   checkpoint_plan [''g1.xlsx'', ''g2.xlsx''] c1_manual c1_checkpoint
     = Incremental [''g2.xlsx''] (ps_player_state c1_checkpoint) \<and>
   main c1_config (c1_env 7) c1_rankstats c1_manual c1_checkpoint c1_rankhistory
     [c1_game1, c1_game2] = Inl (KeyError ''Ann'') \<and>
   playlist_table (main c1_config (c1_env 7) c1_rankstats c1_manual no_checkpoint []
     [c1_game1, c1_game2])
     = Inr (Some [(''111'', c1_h2h 0 1 2 1 1 2), (''7'', c1_h2h 100 2 2 1 1 2)]) \<and>
   playlist_table (main c1_config (c1_env 8) c1_rankstats c1_manual no_checkpoint []
     [c1_game1, c1_game2])
     = Inr (Some [(''111'', c1_h2h 0 1 2 1 1 2), (''8'', c1_h2h 100 2 2 1 1 2)])"
  by (simp add: ev_main ev_ledger ev_strings c1_defs c1_xp_changes cong: ev_congs)

subsection \<open>Series detector\<close>

lemma step_continues:
  assumes "current_series st = Some cs" and "team_sig cs = Some (get_team_signature g)"
  shows "series_list (detect_series_step f st g) = series_list st"
    and "series_counter (detect_series_step f st g) = series_counter st"
    and "\<exists>cs'. current_series (detect_series_step f st g) = Some cs' \<and>
               team_sig cs' = Some (get_team_signature g) \<and>
               games cs' = games cs @ [appended_entry g]"
  using assms by (simp_all add: detect_series_step_def Let_def appended_entry_def)

lemma step_opens:
  assumes "\<forall>cs. current_series st = Some cs \<longrightarrow> team_sig cs \<noteq> Some (get_team_signature g)"
  shows "series_list (detect_series_step f st g) = close_series st"
    and "series_counter (detect_series_step f st g) = series_counter st + 1"
    and "\<exists>cs'. current_series (detect_series_step f st g) = Some cs' \<and>
               team_sig cs' = Some (get_team_signature g) \<and>
               games cs' = [appended_entry g]"
  using assms by (auto simp add: detect_series_step_def Let_def appended_entry_def split: option.splits)

lemma step_has_open_series:
  "\<exists>cs'. current_series (detect_series_step f st g) = Some cs' \<and>
          team_sig cs' = Some (get_team_signature g)"
  by (cases "\<forall>cs. current_series st = Some cs \<longrightarrow> team_sig cs \<noteq> Some (get_team_signature g)")
     (use step_opens(3) step_continues(3) in blast)+



lemma lower_char_table:
  "list_all (\<lambda>(c, d). lower_char c = d \<and> lower_char d = d) ascii_case_pairs"
  by code_simp

lemma lower_char_pair:
  assumes "(c, d) \<in> set ascii_case_pairs"
  shows "lower_char c = d" and "lower_char d = d"
  using lower_char_table assms by (auto simp: list_all_iff)

lemma lower_char_ignores_case:
  assumes "c = d \<or> (c, d) \<in> set ascii_case_pairs \<or> (d, c) \<in> set ascii_case_pairs"
  shows "lower_char c = lower_char d"
  using assms lower_char_pair [of c d] lower_char_pair [of d c] by auto

lemma lower_ignores_case: "equal_ignoring_ascii_case a b \<Longrightarrow> lower a = lower b"
  unfolding equal_ignoring_ascii_case_def lower_def
  by (induction a b rule: list_all2_induct) (simp_all add: lower_char_ignores_case)

lemma lowered_rosters_equal:
  assumes "rosters_equal_ignoring_case A B"
  shows "set (map lower A) = set (map lower B)"
proof (rule set_eqI)
  fix x
  show "x \<in> set (map lower A) \<longleftrightarrow> x \<in> set (map lower B)"
  proof
    assume "x \<in> set (map lower A)"
    then obtain a where a: "a \<in> set A" "x = lower a" by auto
    then obtain b where b: "b \<in> set B" "equal_ignoring_ascii_case a b"
      using assms unfolding rosters_equal_ignoring_case_def by blast
    have "lower a = lower b" using b(2) by (rule lower_ignores_case)
    then show "x \<in> set (map lower B)" using a(2) b(1) by simp
  next
    assume "x \<in> set (map lower B)"
    then obtain b where b: "b \<in> set B" "x = lower b" by auto
    then obtain a where a: "a \<in> set A" "equal_ignoring_ascii_case a b"
      using assms unfolding rosters_equal_ignoring_case_def by blast
    have "lower a = lower b" using a(2) by (rule lower_ignores_case)
    then show "x \<in> set (map lower A)" using b(2) a(1) by (metis image_eqI set_map)
  qed
qed

lemma lowered_names:
  "[lower (name p). p \<leftarrow> ps, team p = t] = map lower [name p. p \<leftarrow> ps, team p = t]"
  by (induction ps) auto

lemma signature_as_map:
  "get_team_signature g =
     (set (map lower [name p. p \<leftarrow> players g, team p = ''Red'']),
      set (map lower [name p. p \<leftarrow> players g, team p = ''Blue'']))"
  unfolding get_team_signature_def Let_def lowered_names ..

lemma consecutive_same_signature:
  assumes "get_team_signature g1 = get_team_signature g2"
  shows "series_list (detect_series_step f (detect_series_step f st g1) g2)
           = series_list (detect_series_step f st g1) \<and>
         series_counter (detect_series_step f (detect_series_step f st g1) g2)
           = series_counter (detect_series_step f st g1) \<and>
         (\<exists>cs. current_series (detect_series_step f st g1) = Some cs \<and>
               map_option games (current_series (detect_series_step f (detect_series_step f st g1) g2))
                 = Some (games cs @ [appended_entry g2]))"
proof -
  obtain cs where cs: "current_series (detect_series_step f st g1) = Some cs"
      "team_sig cs = Some (get_team_signature g2)"
    using step_has_open_series [of f st g1] assms by auto
  show ?thesis
    using step_continues [OF cs, of f] cs(1) by auto
qed


text \<open>
  C10. For two consecutive matches whose Red rosters and whose Blue rosters are equal as
  sets up to ASCII letter case of the names, the signatures are equal and the second
  match continues the open series: no series is closed, the counter stays, and the open
  series gains exactly the entry of the second match.
\<close>

theorem series_continuity_ignores_case:
  assumes "rosters_equal_ignoring_case [name p. p \<leftarrow> players g1, team p = ''Red'']
             [name p. p \<leftarrow> players g2, team p = ''Red'']"
    and "rosters_equal_ignoring_case [name p. p \<leftarrow> players g1, team p = ''Blue'']
             [name p. p \<leftarrow> players g2, team p = ''Blue'']"
  shows "get_team_signature g1 = get_team_signature g2 \<and>
         series_list (detect_series_step f (detect_series_step f st g1) g2)
           = series_list (detect_series_step f st g1) \<and>
         series_counter (detect_series_step f (detect_series_step f st g1) g2)
           = series_counter (detect_series_step f st g1) \<and>
         (\<exists>cs. current_series (detect_series_step f st g1) = Some cs \<and>
               map_option games (current_series (detect_series_step f (detect_series_step f st g1) g2))
                 = Some (games cs @ [appended_entry g2]))"
proof -
  have "get_team_signature g1 = get_team_signature g2"
    unfolding signature_as_map
    using lowered_rosters_equal [OF assms(1)] lowered_rosters_equal [OF assms(2)] by simp
  then show ?thesis
    using consecutive_same_signature by blast
qed



lemmas c4_defs = c4_game_def example_game_def example_player_def no_series_def





text \<open>
  C10, witness.
\<close>

theorem series_continuity_ignores_case_witness:
  "rosters_equal_ignoring_case [''Ann''] [''aNN''] \<and>
   get_team_signature (c4_game ''1'' ''Ann'' ''Bob'') = get_team_signature (c4_game ''2'' ''aNN'' ''bob'') \<and>
   series_counter (detect_series_step (\<lambda>n. n)
       (detect_series_step (\<lambda>n. n) no_series (c4_game ''1'' ''Ann'' ''Bob''))
       (c4_game ''2'' ''aNN'' ''bob''))
     = series_counter (detect_series_step (\<lambda>n. n) no_series (c4_game ''1'' ''Ann'' ''Bob''))"
proof -
  have r: "rosters_equal_ignoring_case [''Ann''] [''aNN'']"
    by (simp add: rosters_equal_ignoring_case_def equal_ignoring_ascii_case_def ascii_case_pairs_def)
  have b: "rosters_equal_ignoring_case [''Bob''] [''bob'']"
    by (simp add: rosters_equal_ignoring_case_def equal_ignoring_ascii_case_def ascii_case_pairs_def)
  have h1: "rosters_equal_ignoring_case
              [name p. p \<leftarrow> players (c4_game ''1'' ''Ann'' ''Bob''), team p = ''Red'']
              [name p. p \<leftarrow> players (c4_game ''2'' ''aNN'' ''bob''), team p = ''Red'']"
    using r by (simp add: c4_defs)
  have h2: "rosters_equal_ignoring_case
              [name p. p \<leftarrow> players (c4_game ''1'' ''Ann'' ''Bob''), team p = ''Blue'']
              [name p. p \<leftarrow> players (c4_game ''2'' ''aNN'' ''bob''), team p = ''Blue'']"
    using b by (simp add: c4_defs)
  show ?thesis
    using series_continuity_ignores_case [OF h1 h2, of "\<lambda>n. n" no_series] r by blast
qed

end
